theory Spec2Isabelle
  imports Complex_Main "HOL-Library.State_Monad"
begin

section \<open>Data model (models.py)\<close>

text \<open>
  \<^verbatim>\<open>class Tier(IntEnum): SMALL = 1; MEDIUM = 2; LARGE = 3\<close>.
  Comparisons between tiers compare the integer values; iterating the class yields the
  members in definition order.
\<close>

datatype Tier = SMALL | MEDIUM | LARGE

fun tier_value :: "Tier \<Rightarrow> int" where
  "tier_value SMALL = 1"
| "tier_value MEDIUM = 2"
| "tier_value LARGE = 3"

definition all_tiers :: "Tier list" where
  "all_tiers = [SMALL, MEDIUM, LARGE]"

text \<open>
  Parameter counts are Python floats obtained from short decimal literals; they are
  modelled as exact rationals. \<^verbatim>\<open>None\<close> is \<open>None\<close>. The field \<^verbatim>\<open>id\<close> is called
  \<open>model_id\<close> here.
\<close>

record ModelInfo =
  model_id :: string
  total_params :: "rat option"
  active_params :: "rat option"
  tier :: Tier
  is_coder :: bool

text \<open>
  Python's \<^verbatim>\<open>a or b\<close> on optional floats: \<^verbatim>\<open>a\<close> when it is truthy (neither
  \<^verbatim>\<open>None\<close> nor zero), otherwise \<^verbatim>\<open>b\<close>.
\<close>

fun truthy :: "rat option \<Rightarrow> bool" where
  "truthy None = False"
| "truthy (Some v) = (v \<noteq> 0)"

definition py_or :: "rat option \<Rightarrow> rat option \<Rightarrow> rat option" where
  "py_or a b = (if truthy a then a else b)"

fun or_float :: "rat option \<Rightarrow> rat \<Rightarrow> rat" where
  "or_float None d = d"
| "or_float (Some v) d = (if v \<noteq> 0 then v else d)"

text \<open>\<^verbatim>\<open>return self.total_params or self.active_params or 0.0\<close>\<close>

definition effective_params :: "ModelInfo \<Rightarrow> rat" where
  "effective_params m = or_float (py_or (total_params m) (active_params m)) 0"

text \<open>
  The registry's \<^verbatim>\<open>models\<close> dict keeps insertion order, which decides ties in
  \<^verbatim>\<open>max\<close>; it is an association list from model id to model.
\<close>

record ModelRegistry =
  models :: "(string \<times> ModelInfo) list"
  last_refresh :: rat

definition model_values :: "ModelRegistry \<Rightarrow> ModelInfo list" where
  "model_values reg = map snd (models reg)"

text \<open>\<^verbatim>\<open>[m for m in self.models.values() if m.tier == tier]\<close>\<close>

definition by_tier :: "ModelRegistry \<Rightarrow> Tier \<Rightarrow> ModelInfo list" where
  "by_tier reg t = filter (\<lambda>m. tier m = t) (model_values reg)"

text \<open>
  \<^verbatim>\<open>max(xs, key=f)\<close> on a non-empty sequence: the running maximum is replaced only by
  a strictly greater item, so the first maximal item wins. \<^verbatim>\<open>min\<close> is symmetric.
\<close>

fun max_from :: "('a \<Rightarrow> rat) \<Rightarrow> 'a \<Rightarrow> 'a list \<Rightarrow> 'a" where
  "max_from key best [] = best"
| "max_from key best (x # xs) = max_from key (if key x > key best then x else best) xs"

fun min_from :: "('a \<Rightarrow> rat) \<Rightarrow> 'a \<Rightarrow> 'a list \<Rightarrow> 'a" where
  "min_from key best [] = best"
| "min_from key best (x # xs) = min_from key (if key x < key best then x else best) xs"

section \<open>Model selection (ModelRegistry.get\_model\_for\_tier)\<close>

text \<open>
  The first loop: \<^verbatim>\<open>for fallback_tier in Tier: if fallback_tier > tier: candidates =
  self.by_tier(fallback_tier); if candidates: break\<close>. The last argument is the current
  value of \<^verbatim>\<open>candidates\<close>.
\<close>

fun search_higher :: "ModelRegistry \<Rightarrow> Tier \<Rightarrow> Tier list \<Rightarrow> ModelInfo list \<Rightarrow> ModelInfo list" where
  "search_higher reg t [] cands = cands"
| "search_higher reg t (ft # fts) cands =
     (if tier_value ft > tier_value t
      then (let c = by_tier reg ft in if c \<noteq> [] then c else search_higher reg t fts c)
      else search_higher reg t fts cands)"

text \<open>The second loop, over \<^verbatim>\<open>reversed(list(Tier))\<close> with \<^verbatim>\<open>fallback_tier < tier\<close>.\<close>

fun search_lower :: "ModelRegistry \<Rightarrow> Tier \<Rightarrow> Tier list \<Rightarrow> ModelInfo list \<Rightarrow> ModelInfo list" where
  "search_lower reg t [] cands = cands"
| "search_lower reg t (ft # fts) cands =
     (if tier_value ft < tier_value t
      then (let c = by_tier reg ft in if c \<noteq> [] then c else search_lower reg t fts c)
      else search_lower reg t fts cands)"

text \<open>Lines 50-64: the value of \<^verbatim>\<open>candidates\<close> when line 65 is reached.\<close>

definition candidates :: "ModelRegistry \<Rightarrow> Tier \<Rightarrow> ModelInfo list" where
  "candidates reg t =
     (let c0 = by_tier reg t;
          c1 = (if c0 = [] then search_higher reg t all_tiers c0 else c0);
          c2 = (if c1 = [] then search_lower reg t (rev all_tiers) c1 else c1)
      in c2)"

text \<open>
  The third loop (lines 79-83), which returns from the method at the first tier other
  than the requested one that holds a non-coder model; \<open>None\<close> when the loop ends
  without returning.
\<close>

fun search_general :: "ModelRegistry \<Rightarrow> Tier \<Rightarrow> Tier list \<Rightarrow> ModelInfo option" where
  "search_general reg t [] = None"
| "search_general reg t (ft # fts) =
     (if ft \<noteq> t
      then (case filter (\<lambda>m. \<not> is_coder m) (by_tier reg ft) of
              g # gs \<Rightarrow> Some (max_from effective_params g gs)
            | [] \<Rightarrow> search_general reg t fts)
      else search_general reg t fts)"

definition get_model_for_tier :: "ModelRegistry \<Rightarrow> Tier \<Rightarrow> bool \<Rightarrow> ModelInfo option" where
  "get_model_for_tier reg t prefer_coder =
     (case candidates reg t of
        [] \<Rightarrow> None
      | c # cs \<Rightarrow>
          (if prefer_coder
           then (case filter is_coder (c # cs) of
                   k # ks \<Rightarrow> Some (max_from effective_params k ks)
                 | [] \<Rightarrow> Some (max_from effective_params c cs))
           else (case filter (\<lambda>m. \<not> is_coder m) (c # cs) of
                   g # gs \<Rightarrow> Some (max_from effective_params g gs)
                 | [] \<Rightarrow>
                     (case search_general reg t all_tiers of
                        Some m \<Rightarrow> Some m
                      | None \<Rightarrow> Some (max_from effective_params c cs)))))"

subsection \<open>The selection policy as the specification words it\<close>

text \<open>
  Step 1 of the specification: the candidates are all models of the requested tier; if
  there are none, the first non-empty strictly higher tier in ascending order; if there
  is none either, the first non-empty strictly lower tier in descending order.
\<close>

definition spec_candidates :: "ModelRegistry \<Rightarrow> Tier \<Rightarrow> ModelInfo list" where
  "spec_candidates reg t =
     (if by_tier reg t \<noteq> [] then by_tier reg t
      else (case find (\<lambda>ft. by_tier reg ft \<noteq> [])
                   (filter (\<lambda>ft. tier_value t < tier_value ft) [SMALL, MEDIUM, LARGE]) of
              Some ft \<Rightarrow> by_tier reg ft
            | None \<Rightarrow>
                (case find (\<lambda>ft. by_tier reg ft \<noteq> [])
                        (filter (\<lambda>ft. tier_value ft < tier_value t) [LARGE, MEDIUM, SMALL]) of
                   Some ft \<Rightarrow> by_tier reg ft
                 | None \<Rightarrow> [])))"

text \<open>
  The coder models of a list, the non-coder models of a list, and "a largest model of a
  list".
\<close>

definition coders_of :: "ModelInfo list \<Rightarrow> ModelInfo list" where
  "coders_of ms = filter is_coder ms"

definition general_of :: "ModelInfo list \<Rightarrow> ModelInfo list" where
  "general_of ms = filter (\<lambda>m. \<not> is_coder m) ms"

definition is_largest_in :: "ModelInfo \<Rightarrow> ModelInfo list \<Rightarrow> bool" where
  "is_largest_in m ms \<longleftrightarrow>
     m \<in> set ms \<and> list_all (\<lambda>m'. effective_params m' \<le> effective_params m) ms"

subsection \<open>Example registries\<close>

text \<open>The registry of \<^verbatim>\<open>test_get_model_for_tier_fallback_up\<close>.\<close>

definition medium_model :: ModelInfo where
  "medium_model = \<lparr>model_id = ''medium'', total_params = Some 24, active_params = None,
                    tier = MEDIUM, is_coder = False\<rparr>"

definition reg_medium_only :: ModelRegistry where
  "reg_medium_only = \<lparr>models = [(''medium'', medium_model)], last_refresh = 0\<rparr>"

text \<open>A small general model, a medium coder model and a large general model.\<close>

definition small_general :: ModelInfo where
  "small_general = \<lparr>model_id = ''gemma-3-4b'', total_params = Some 4, active_params = None,
                     tier = SMALL, is_coder = False\<rparr>"

definition medium_coder :: ModelInfo where
  "medium_coder = \<lparr>model_id = ''qwen2.5-coder-14b'', total_params = Some 14,
                    active_params = None, tier = MEDIUM, is_coder = True\<rparr>"

definition large_general :: ModelInfo where
  "large_general = \<lparr>model_id = ''llama-3-70b'', total_params = Some 70, active_params = None,
                     tier = LARGE, is_coder = False\<rparr>"

definition reg_mixed :: ModelRegistry where
  "reg_mixed = \<lparr>models = [(''gemma-3-4b'', small_general),
                           (''qwen2.5-coder-14b'', medium_coder),
                           (''llama-3-70b'', large_general)],
                 last_refresh = 0\<rparr>"

text \<open>A registry with a SMALL and a LARGE model and nothing in MEDIUM.\<close>

definition reg_small_large :: ModelRegistry where
  "reg_small_large = \<lparr>models = [(''gemma-3-4b'', small_general),
                                 (''llama-3-70b'', large_general)],
                       last_refresh = 0\<rparr>"

definition reg_coders :: ModelRegistry where
  "reg_coders = \<lparr>models = [(''qwen2.5-coder-14b'', medium_coder)], last_refresh = 0\<rparr>"

text \<open>A model whose total parameter count is zero and whose active count is 3.\<close>

definition zero_total_model :: ModelInfo where
  "zero_total_model = \<lparr>model_id = ''m-0b-a3b'', total_params = Some 0,
                        active_params = Some 3, tier = SMALL, is_coder = False\<rparr>"

section \<open>Parameter extraction and tiering (models.py)\<close>

text \<open>
  Exceptions of the Python code that the model distinguishes. \<open>HTTPError\<close> stands for
  everything the HTTP client raises (connection failure, timeout, error status) and
  \<open>JSONDecodeError\<close> for a body or text that is not JSON.
\<close>

datatype py_error =
  ValueError | KeyError | TypeError | IndexError | AttributeError
  | HTTPError | JSONDecodeError | RuntimeError

subsection \<open>Character classes and the two regular expressions\<close>

text \<open>
  Model identifiers are taken to be ASCII strings. \<^verbatim>\<open>\d\<close> is then a decimal digit,
  \<^verbatim>\<open>\s\<close> one of the characters 9-13 and 28-32, and \<^verbatim>\<open>\w\<close> a letter, a digit or the
  underscore.
\<close>

definition is_digit :: "char \<Rightarrow> bool" where
  "is_digit c \<longleftrightarrow> c \<in> set ''0123456789''"

definition is_space :: "char \<Rightarrow> bool" where
  "is_space c \<longleftrightarrow> (let n = (of_char c :: nat) in (9 \<le> n \<and> n \<le> 13) \<or> (28 \<le> n \<and> n \<le> 32))"

definition is_word :: "char \<Rightarrow> bool" where
  "is_word c \<longleftrightarrow>
     (let n = (of_char c :: nat)
      in (48 \<le> n \<and> n \<le> 57) \<or> (65 \<le> n \<and> n \<le> 90) \<or> (97 \<le> n \<and> n \<le> 122) \<or> n = 95)"

text \<open>
  \<^verbatim>\<open>\d+(?:\.\d+)?\<close> at the start of a string: the matched text and the rest. Both
  repetitions are greedy. In the two patterns below the number is followed by
  \<^verbatim>\<open>\s*[bB]\<close> or \<^verbatim>\<open>[bB]\<close>, which can match neither a digit nor a dot, so giving
  back a digit or the fraction never yields another match and the greedy choice is the
  only one there is.
\<close>

definition match_number :: "string \<Rightarrow> (string \<times> string) option" where
  "match_number s =
     (let ds = takeWhile is_digit s; r = dropWhile is_digit s
      in if ds = [] then None
         else (case r of
                 [] \<Rightarrow> Some (ds, r)
               | c # r' \<Rightarrow>
                   if c = CHR ''.'' \<and> takeWhile is_digit r' \<noteq> []
                   then Some (ds @ c # takeWhile is_digit r', dropWhile is_digit r')
                   else Some (ds, r)))"

text \<open>
  \<^verbatim>\<open>(?:\b|$)\<close> directly after \<^verbatim>\<open>[bB]\<close>: the previous character is a word character,
  so the position is a boundary exactly when the string ends or a non-word character
  follows (which covers \<^verbatim>\<open>$\<close> before a final newline).
\<close>

definition boundary_after :: "string \<Rightarrow> bool" where
  "boundary_after r = (case r of [] \<Rightarrow> True | c # _ \<Rightarrow> \<not> is_word c)"

text \<open>
  \<^verbatim>\<open>PARAM_PATTERN = (\d+(?:\.\d+)?)\s*[bB](?:\b|$)\<close> matched at the start of a string:
  group 1 and the number of characters the whole match consumed.
\<close>

definition param_match_at :: "string \<Rightarrow> (string \<times> nat) option" where
  "param_match_at s =
     (case match_number s of
        None \<Rightarrow> None
      | Some (g, r) \<Rightarrow>
          (case dropWhile is_space r of
             [] \<Rightarrow> None
           | b # r' \<Rightarrow>
               if (b = CHR ''b'' \<or> b = CHR ''B'') \<and> boundary_after r'
               then Some (g, length s - length r')
               else None))"

text \<open>
  \<^verbatim>\<open>PARAM_PATTERN.findall(model_id)\<close>: the scan tries each start position from the
  left; after a match it resumes behind the match. The first argument counts the
  characters of the last match still to be skipped.
\<close>

fun param_scan :: "nat \<Rightarrow> string \<Rightarrow> string list" where
  "param_scan k [] = []"
| "param_scan (Suc k) (c # cs) = param_scan k cs"
| "param_scan 0 (c # cs) =
     (case param_match_at (c # cs) of
        Some (g, n) \<Rightarrow> g # param_scan (n - 1) cs
      | None \<Rightarrow> param_scan 0 cs)"

definition param_findall :: "string \<Rightarrow> string list" where
  "param_findall s = param_scan 0 s"

text \<open>
  \<^verbatim>\<open>MOE_ACTIVE_PATTERN.search(model_id)\<close> with
  \<^verbatim>\<open>MOE_ACTIVE_PATTERN = [Aa](\d+(?:\.\d+)?)[bB]\<close>: group 1 of the leftmost match.
\<close>

fun moe_search :: "string \<Rightarrow> string option" where
  "moe_search [] = None"
| "moe_search (c # cs) =
     (if c = CHR ''A'' \<or> c = CHR ''a''
      then (case match_number cs of
              Some (g, b # r) \<Rightarrow>
                if b = CHR ''b'' \<or> b = CHR ''B'' then Some g else moe_search cs
            | _ \<Rightarrow> moe_search cs)
      else moe_search cs)"

text \<open>
  \<^verbatim>\<open>float(p)\<close> for a text matched by \<^verbatim>\<open>\d+(?:\.\d+)?\<close>, as an exact rational.
\<close>

definition digit_val :: "char \<Rightarrow> nat" where
  "digit_val c = of_char c - 48"

definition nat_of_digits :: "string \<Rightarrow> nat" where
  "nat_of_digits ds = foldl (\<lambda>n c. 10 * n + digit_val c) 0 ds"

definition py_float :: "string \<Rightarrow> rat" where
  "py_float p =
     (let ip = takeWhile is_digit p; fp = drop 1 (dropWhile is_digit p)
      in of_nat (nat_of_digits ip) + of_nat (nat_of_digits fp) / 10 ^ length fp)"

text \<open>\<^verbatim>\<open>max\<close> of a sequence of floats; it raises \<^verbatim>\<open>ValueError\<close> on an empty one.\<close>

fun py_max :: "rat list \<Rightarrow> py_error + rat" where
  "py_max [] = Inl ValueError"
| "py_max (x # xs) = Inr (max_from (\<lambda>v. v) x xs)"

subsection \<open>\_extract\_params\<close>

definition extract_params :: "string \<Rightarrow> py_error + (rat option \<times> rat option)" where
  "extract_params mid =
     (let active = map_option py_float (moe_search mid);
          all_params = param_findall mid
      in if all_params \<noteq> []
         then (case py_max (map py_float all_params) of
                 Inl e \<Rightarrow> Inl e
               | Inr tp \<Rightarrow>
                   if truthy active \<and> Some tp = active \<and> length all_params > 1
                   then (case py_max (filter (\<lambda>v. Some v \<noteq> active) (map py_float all_params)) of
                           Inl e \<Rightarrow> Inl e
                         | Inr tp' \<Rightarrow> Inr (Some tp', active))
                   else Inr (Some tp, active))
         else Inr (None, active))"

subsection \<open>Configuration (config.py)\<close>

record RouterConfig =
  tier1_max_params :: rat
  tier2_max_params :: rat
  heuristic_low_threshold :: rat
  heuristic_high_threshold :: rat
  classifier_model :: string
  model_cache_ttl :: rat
  filter_mode :: string
  allowed_models :: "string set"
  excluded_models :: "string set"
  tier_overrides :: "string \<rightharpoonup> string"

text \<open>The values set by \<^verbatim>\<open>RouterConfig.__init__\<close>.\<close>

definition default_config :: RouterConfig where
  "default_config =
     \<lparr>tier1_max_params = 8, tier2_max_params = 27,
      heuristic_low_threshold = 3 / 10, heuristic_high_threshold = 7 / 10,
      classifier_model = '''', model_cache_ttl = 300,
      filter_mode = ''blocklist'', allowed_models = {}, excluded_models = {},
      tier_overrides = Map.empty\<rparr>"

definition is_model_enabled :: "RouterConfig \<Rightarrow> string \<Rightarrow> bool" where
  "is_model_enabled cfg mid =
     (if filter_mode cfg = ''allowlist'' then mid \<in> allowed_models cfg
      else mid \<notin> excluded_models cfg)"

definition get_tier_override :: "RouterConfig \<Rightarrow> string \<Rightarrow> string option" where
  "get_tier_override cfg mid = tier_overrides cfg mid"

subsection \<open>\_classify\_tier, \_is\_chat\_model, \_build\_model\_info\<close>

definition classify_tier :: "RouterConfig \<Rightarrow> rat \<Rightarrow> Tier" where
  "classify_tier cfg e =
     (if e \<le> tier1_max_params cfg then SMALL
      else if e \<le> tier2_max_params cfg then MEDIUM
      else LARGE)"

text \<open>
  \<^verbatim>\<open>re.search\<close> of a lower-case literal with \<^verbatim>\<open>re.IGNORECASE\<close>: the literal occurs in
  the lower-cased text.
\<close>

definition to_lower :: "char \<Rightarrow> char" where
  "to_lower c =
     (let n = (of_char c :: nat) in if 65 \<le> n \<and> n \<le> 90 then char_of (n + 32) else c)"

fun starts_with :: "string \<Rightarrow> string \<Rightarrow> bool" where
  "starts_with [] s = True"
| "starts_with (p # ps) [] = False"
| "starts_with (p # ps) (c # cs) = (p = c \<and> starts_with ps cs)"

fun contains :: "string \<Rightarrow> string \<Rightarrow> bool" where
  "contains pat [] = (pat = [])"
| "contains pat (c # cs) = (starts_with pat (c # cs) \<or> contains pat cs)"

definition search_ci :: "string \<Rightarrow> string \<Rightarrow> bool" where
  "search_ci pat s = contains pat (map to_lower s)"

definition is_chat_model :: "string \<Rightarrow> bool" where
  "is_chat_model mid =
     (if search_ci ''embed'' mid \<or> search_ci ''embedding'' mid then False
      else if search_ci ''ocr'' mid \<or> search_ci ''whisper'' mid
              \<or> search_ci ''tts'' mid \<or> search_ci ''rerank'' mid then False
      else True)"

text \<open>
  \<^verbatim>\<open>_build_model_info\<close>: \<open>Inr None\<close> is the return value \<^verbatim>\<open>None\<close>, \<open>Inl\<close> an
  exception coming out of \<^verbatim>\<open>_extract_params\<close>.
\<close>

definition build_model_info :: "RouterConfig \<Rightarrow> string \<Rightarrow> py_error + ModelInfo option" where
  "build_model_info cfg mid =
     (if \<not> is_chat_model mid then Inr None
      else (case extract_params mid of
              Inl e \<Rightarrow> Inl e
            | Inr (tp, ap) \<Rightarrow>
                (let effective = py_or tp ap;
                     t = (case effective of
                            Some e \<Rightarrow> classify_tier cfg e
                          | None \<Rightarrow> MEDIUM);
                     coder = (search_ci ''coder'' mid \<or> search_ci ''code'' mid)
                 in Inr (Some \<lparr>model_id = mid, total_params = tp, active_params = ap,
                                tier = t, is_coder = coder\<rparr>))))"

subsection \<open>Tiering of built models\<close>

text \<open>
  The local variable \<^verbatim>\<open>effective = total_params or active_params\<close> of
  \<^verbatim>\<open>_build_model_info\<close> is not \<^verbatim>\<open>None\<close>: a parameter count was extracted.
\<close>

definition params_known :: "ModelInfo \<Rightarrow> bool" where
  "params_known m \<longleftrightarrow> py_or (total_params m) (active_params m) \<noteq> None"

definition unknown_model :: ModelInfo where
  "unknown_model = \<lparr>model_id = ''gpt-4o'', total_params = None, active_params = None,
                     tier = MEDIUM, is_coder = False\<rparr>"

definition large_coder :: ModelInfo where
  "large_coder = \<lparr>model_id = ''qwen2.5-coder-32b'', total_params = Some 32,
                   active_params = None, tier = LARGE, is_coder = True\<rparr>"

section \<open>Refreshing the registry (models.py, refresh\_models)\<close>

subsection \<open>JSON values and the Python operations used on them\<close>

text \<open>
  What \<^verbatim>\<open>resp.json()\<close> and \<^verbatim>\<open>json.loads\<close> return: \<^verbatim>\<open>None\<close>, a bool, an int, a finite
  float, one of the floats \<^verbatim>\<open>nan\<close>, \<^verbatim>\<open>inf\<close>, \<^verbatim>\<open>-inf\<close> (which the decoder accepts),
  a str, a list or a dict with string keys (kept as an association list in insertion
  order, keys distinct).
\<close>

datatype json =
  JNull | JBool bool | JInt int | JFloat rat | JNonFinite | JStr string
  | JArr "json list" | JObj "(string \<times> json) list"

text \<open>\<^verbatim>\<open>x.get(key, default)\<close>: only a dict has the method.\<close>

fun py_get :: "json \<Rightarrow> string \<Rightarrow> json \<Rightarrow> py_error + json" where
  "py_get (JObj kvs) k d = Inr (case map_of kvs k of Some v \<Rightarrow> v | None \<Rightarrow> d)"
| "py_get _ k d = Inl AttributeError"

text \<open>
  \<^verbatim>\<open>x[key]\<close> with a string key: a dict looks the key up and raises \<^verbatim>\<open>KeyError\<close> when
  it is missing; every other value raises \<^verbatim>\<open>TypeError\<close>.
\<close>

fun py_getitem :: "json \<Rightarrow> string \<Rightarrow> py_error + json" where
  "py_getitem (JObj kvs) k = (case map_of kvs k of Some v \<Rightarrow> Inr v | None \<Rightarrow> Inl KeyError)"
| "py_getitem _ k = Inl TypeError"

text \<open>
  \<^verbatim>\<open>for entry in x\<close>: a list yields its items, a dict its keys, a str its characters;
  nothing else is iterable.
\<close>

fun py_iter :: "json \<Rightarrow> py_error + json list" where
  "py_iter (JArr xs) = Inr xs"
| "py_iter (JObj kvs) = Inr (map (\<lambda>kv. JStr (fst kv)) kvs)"
| "py_iter (JStr s) = Inr (map (\<lambda>c. JStr [c]) s)"
| "py_iter _ = Inl TypeError"

text \<open>\<^verbatim>\<open>d[k] = v\<close> on an insertion-ordered dict.\<close>

fun dict_set :: "('k \<times> 'v) list \<Rightarrow> 'k \<Rightarrow> 'v \<Rightarrow> ('k \<times> 'v) list" where
  "dict_set [] k v = [(k, v)]"
| "dict_set ((k', v') # kvs) k v =
     (if k' = k then (k, v) # kvs else (k', v') # dict_set kvs k v)"

text \<open>\<^verbatim>\<open>Tier[name]\<close>; \<open>None\<close> is the \<^verbatim>\<open>KeyError\<close> that the caller catches.\<close>

definition tier_of_name :: "string \<Rightarrow> Tier option" where
  "tier_of_name name =
     (if name = ''SMALL'' then Some SMALL
      else if name = ''MEDIUM'' then Some MEDIUM
      else if name = ''LARGE'' then Some LARGE
      else None)"

subsection \<open>The body of the try block\<close>

text \<open>
  Lines 184-191: the tier override, applied to the freshly built \<^verbatim>\<open>info\<close>. An invalid
  tier name is logged and ignored.
\<close>

definition apply_tier_override :: "RouterConfig \<Rightarrow> string \<Rightarrow> ModelInfo \<Rightarrow> ModelInfo" where
  "apply_tier_override cfg mid info =
     (case get_tier_override cfg mid of
        None \<Rightarrow> info
      | Some name \<Rightarrow>
          if name = [] then info
          else (case tier_of_name name of
                  Some t \<Rightarrow> info\<lparr>tier := t\<rparr>
                | None \<Rightarrow> info))"

text \<open>
  The loop of lines 173-201 over the entries, with \<^verbatim>\<open>new_models\<close> as accumulator.
  \<^verbatim>\<open>_build_model_info\<close> runs its regular expressions on \<^verbatim>\<open>entry["id"]\<close>, which raises
  \<^verbatim>\<open>TypeError\<close> unless that is a str. The list \<^verbatim>\<open>skipped\<close> and the log calls only
  feed the log and are left out.
\<close>

fun process_entries ::
  "RouterConfig \<Rightarrow> json list \<Rightarrow> (string \<times> ModelInfo) list \<Rightarrow> py_error + (string \<times> ModelInfo) list"
where
  "process_entries cfg [] new_models = Inr new_models"
| "process_entries cfg (entry # rest) new_models =
     (case py_getitem entry ''id'' of
        Inl e \<Rightarrow> Inl e
      | Inr (JStr mid) \<Rightarrow>
          (case build_model_info cfg mid of
             Inl e \<Rightarrow> Inl e
           | Inr None \<Rightarrow> process_entries cfg rest new_models
           | Inr (Some info) \<Rightarrow>
               if \<not> is_model_enabled cfg mid then process_entries cfg rest new_models
               else process_entries cfg rest
                      (dict_set new_models mid (apply_tier_override cfg mid info)))
      | Inr _ \<Rightarrow> Inl TypeError)"

text \<open>
  The outcome of the HTTP request of lines 160-166: \<^verbatim>\<open>client.get\<close>,
  \<^verbatim>\<open>raise_for_status\<close> or \<^verbatim>\<open>resp.json()\<close> raises, or the decoded body is returned.
\<close>

datatype fetch_result = FetchRaises py_error | FetchReturns json

text \<open>
  Lines 160-201 after the request: the configuration just loaded by \<^verbatim>\<open>load_config()\<close>
  is the one \<^verbatim>\<open>get_config()\<close> returns from then on.
\<close>

definition build_models :: "RouterConfig \<Rightarrow> json \<Rightarrow> py_error + (string \<times> ModelInfo) list" where
  "build_models router_cfg data =
     (case py_get data ''data'' (JArr []) of
        Inl e \<Rightarrow> Inl e
      | Inr v \<Rightarrow>
          (case py_iter v of
             Inl e \<Rightarrow> Inl e
           | Inr entries \<Rightarrow> process_entries router_cfg entries []))"

definition refresh_attempt ::
  "fetch_result \<Rightarrow> RouterConfig \<Rightarrow> py_error + (string \<times> ModelInfo) list" where
  "refresh_attempt fetch router_cfg =
     (case fetch of
        FetchRaises e \<Rightarrow> Inl e
      | FetchReturns data \<Rightarrow> build_models router_cfg data)"

subsection \<open>Global state and refresh\_models\<close>

text \<open>
  The module globals: \<open>registry\<close> is the \<^verbatim>\<open>ModelRegistry\<close> object that \<^verbatim>\<open>_registry\<close> is
  bound to, \<open>config\<close> the object behind \<^verbatim>\<open>get_config()\<close>. \<open>retired\<close> holds the registry
  objects that \<^verbatim>\<open>_registry\<close> was bound to earlier, oldest first, as their holders still
  see them: rebinding the global moves the old object there, whereas a write into the
  live object would change \<open>registry\<close> and retire nothing.
\<close>

record router_state =
  registry :: ModelRegistry
  retired :: "ModelRegistry list"
  config :: RouterConfig

text \<open>The \<^verbatim>\<open>except Exception\<close> handler: re-raise when the registry holds no model.\<close>

definition refresh_failed ::
  "py_error \<Rightarrow> router_state \<Rightarrow> (py_error + ModelRegistry) \<times> router_state" where
  "refresh_failed e s =
     (if models (registry s) = [] then (Inl e, s) else (Inr (registry s), s))"

text \<open>
  \<^verbatim>\<open>refresh_models(force)\<close> at time \<open>now\<close>. \<open>fetch\<close> is what the backend request
  does and \<open>loaded\<close> what \<^verbatim>\<open>load_config()\<close> returns, should they be reached. The result
  is the returned registry or the propagated exception, with the state afterwards.
\<close>

definition refresh_models ::
  "bool \<Rightarrow> rat \<Rightarrow> fetch_result \<Rightarrow> RouterConfig \<Rightarrow> router_state
     \<Rightarrow> (py_error + ModelRegistry) \<times> router_state" where
  "refresh_models force now fetch loaded s =
     (if \<not> force \<and> now - last_refresh (registry s) < model_cache_ttl (config s)
      then (Inr (registry s), s)
      else (case fetch of
              FetchRaises e \<Rightarrow> refresh_failed e s
            | FetchReturns data \<Rightarrow>
                (let s1 = s\<lparr>config := loaded\<rparr>
                 in case build_models loaded data of
                      Inl e \<Rightarrow> refresh_failed e s1
                    | Inr new_models \<Rightarrow>
                        (let fresh = \<lparr>models = new_models, last_refresh = now\<rparr>;
                             s2 = s1\<lparr>registry := fresh, retired := retired s1 @ [registry s1]\<rparr>
                         in (Inr (registry s2), s2)))))"

text \<open>The gate of line 156 lets the refresh through.\<close>

definition refresh_due :: "bool \<Rightarrow> rat \<Rightarrow> router_state \<Rightarrow> bool" where
  "refresh_due force now s \<longleftrightarrow>
     force \<or> \<not> now - last_refresh (registry s) < model_cache_ttl (config s)"

subsection \<open>Example listings\<close>

text \<open>
  A state holding the one-model registry, a listing like the one of the test suite, a
  listing whose second entry lacks \<^verbatim>\<open>id\<close>, and an empty start state.
\<close>

definition serving_state :: router_state where
  "serving_state = \<lparr>registry = reg_medium_only, retired = [], config = default_config\<rparr>"

definition start_state :: router_state where
  "start_state = \<lparr>registry = \<lparr>models = [], last_refresh = 0\<rparr>, retired = [],
                   config = default_config\<rparr>"

definition good_listing :: json where
  "good_listing = JObj [(''data'', JArr [JObj [(''id'', JStr ''gemma-3-4b'')],
                                          JObj [(''id'', JStr ''nomic-embed-text:latest'')],
                                          JObj [(''id'', JStr ''qwen2.5-coder-32b'')]]),
                        (''object'', JStr ''list'')]"

definition bad_listing :: json where
  "bad_listing = JObj [(''data'', JArr [JObj [(''id'', JStr ''gemma-3-4b'')],
                                         JObj [(''object'', JStr ''model'')]])]"

section \<open>Heuristic scoring (heuristics.py)\<close>

subsection \<open>Messages\<close>

text \<open>
  A message is a dict; only \<^verbatim>\<open>role\<close> and \<^verbatim>\<open>content\<close> are read. The content is a str,
  a list of parts, or something else (such as \<^verbatim>\<open>None\<close>), kept as the text \<^verbatim>\<open>str()\<close>
  gives for it. A part is a dict of type \<^verbatim>\<open>text\<close> with an optional str \<^verbatim>\<open>text\<close>, a dict
  of type \<^verbatim>\<open>image_url\<close>, or anything else. A missing key is \<open>None\<close>.
\<close>

datatype block = TextBlock "string option" | ImageUrlBlock | OtherBlock

datatype content = CStr string | CParts "block list" | COther string

record message =
  role :: "string option"
  content :: "content option"

text \<open>\<^verbatim>\<open>sep.join(parts)\<close>\<close>

fun py_join :: "string \<Rightarrow> string list \<Rightarrow> string" where
  "py_join sep [] = []"
| "py_join sep [p] = p"
| "py_join sep (p # q # ps) = p @ sep @ py_join sep (q # ps)"

text \<open>The strings a part appends to \<^verbatim>\<open>parts\<close> in \<^verbatim>\<open>_extract_text\<close>.\<close>

fun block_text :: "block \<Rightarrow> string list" where
  "block_text (TextBlock None) = ['''']"
| "block_text (TextBlock (Some t)) = [t]"
| "block_text ImageUrlBlock = [''[IMAGE]'']"
| "block_text OtherBlock = []"

fun content_text :: "content option \<Rightarrow> string list" where
  "content_text None = ['''']"
| "content_text (Some (CStr s)) = [s]"
| "content_text (Some (CParts bs)) = concat (map block_text bs)"
| "content_text (Some (COther r)) = []"

definition extract_text :: "message list \<Rightarrow> string" where
  "extract_text messages = py_join [CHR 0x0A] (concat (map (\<lambda>m. content_text (content m)) messages))"

text \<open>\<^verbatim>\<open>len(text) // 4\<close>\<close>

definition estimate_tokens :: "string \<Rightarrow> nat" where
  "estimate_tokens text = length text div 4"

subsection \<open>Pattern matching\<close>

text \<open>
  \<^verbatim>\<open>CODE_BLOCK_PATTERN.findall(full_text)\<close> for the pattern \<^verbatim>\<open>```[\s\S]*?```\<close>, counted.
  A match opens at the leftmost fence and, the repetition being lazy, closes at the next
  fence that starts at least three characters later; the scan resumes behind it. The
  flag says whether a fence is open, the number how many characters of the fence just
  read are still to be skipped.
\<close>

fun fence_scan :: "bool \<Rightarrow> nat \<Rightarrow> string \<Rightarrow> nat" where
  "fence_scan inside k [] = 0"
| "fence_scan inside (Suc k) (c # cs) = fence_scan inside k cs"
| "fence_scan inside 0 (c # cs) =
     (if starts_with ''```'' (c # cs)
      then (if inside then 1 + fence_scan False 2 cs else fence_scan True 2 cs)
      else fence_scan inside 0 cs)"

definition count_code_blocks :: "string \<Rightarrow> nat" where
  "count_code_blocks text = fence_scan False 0 text"

text \<open>
  The keyword patterns \<^verbatim>\<open>COMPLEX_KEYWORDS\<close>, \<^verbatim>\<open>MODERATE_KEYWORDS\<close> and
  \<^verbatim>\<open>SIMPLE_KEYWORDS\<close> are not unfolded: the number of matches that \<^verbatim>\<open>finditer\<close> finds in
  a text is a parameter of the model, as is \<^verbatim>\<open>code_indicators.search\<close> of router.py.
\<close>

record matchers =
  complex_count :: "string \<Rightarrow> nat"
  moderate_count :: "string \<Rightarrow> nat"
  simple_count :: "string \<Rightarrow> nat"
  code_indicator :: "string \<Rightarrow> bool"

subsection \<open>The signals of score\_request\<close>

text \<open>
  The reasons are kept as data rather than as formatted text; each constructor stands
  for one of the f-strings, with the number it prints. The matched keywords that the
  three keyword reasons also print are not represented.
\<close>

datatype reason =
  VeryShort nat | MediumLength nat | LongText nat | VeryLong nat
  | DeepConversation nat | MultiTurn nat
  | ManyTools nat | ToolUse nat
  | ComplexSystemPrompt nat
  | MultipleCodeBlocks nat
  | ContainsImages
  | ComplexKeywords nat | ModerateKeywords nat | SimpleKeywords

text \<open>
  Scores are Python floats; they are modelled as exact rationals. Each signal gives the
  amount added to \<^verbatim>\<open>score\<close> and the reasons appended.
\<close>

type_synonym signal = "rat \<times> reason list"

definition token_signal :: "nat \<Rightarrow> signal" where
  "token_signal total_tokens =
     (if total_tokens < 50 then (0, [VeryShort total_tokens])
      else if total_tokens < 200 then (1 / 10, [])
      else if total_tokens < 800 then (1 / 4, [MediumLength total_tokens])
      else if total_tokens < 2000 then (2 / 5, [LongText total_tokens])
      else (1 / 2, [VeryLong total_tokens]))"

definition turn_signal :: "nat \<Rightarrow> signal" where
  "turn_signal num_turns =
     (if num_turns > 10 then (3 / 20, [DeepConversation num_turns])
      else if num_turns > 4 then (2 / 25, [MultiTurn num_turns])
      else (0, []))"

text \<open>\<^verbatim>\<open>if tools:\<close> holds for a non-empty list only.\<close>

definition tool_signal :: "json list option \<Rightarrow> signal" where
  "tool_signal tools =
     (case tools of
        None \<Rightarrow> (0, [])
      | Some [] \<Rightarrow> (0, [])
      | Some ts \<Rightarrow>
          if length ts > 3 then (1 / 5, [ManyTools (length ts)])
          else (1 / 10, [ToolUse (length ts)]))"

definition system_signal :: "message list \<Rightarrow> signal" where
  "system_signal messages =
     (let system_msgs = filter (\<lambda>m. role m = Some ''system'') messages
      in if system_msgs \<noteq> []
         then (let system_tokens = estimate_tokens (extract_text system_msgs)
               in if system_tokens > 500 then (3 / 20, [ComplexSystemPrompt system_tokens])
                  else if system_tokens > 100 then (1 / 20, [])
                  else (0, []))
         else (0, []))"

definition code_signal :: "string \<Rightarrow> signal" where
  "code_signal full_text =
     (let n = count_code_blocks full_text
      in if n > 2 then (3 / 20, [MultipleCodeBlocks n])
         else if n \<noteq> 0 then (1 / 20, [])
         else (0, []))"

definition image_signal :: "string \<Rightarrow> signal" where
  "image_signal full_text =
     (if contains ''[IMAGE]'' full_text then (1 / 10, [ContainsImages]) else (0, []))"

text \<open>\<^verbatim>\<open>min(0.7, 0.2 + 0.15 * len(complex_matches))\<close> when there is a match.\<close>

definition complex_signal :: "nat \<Rightarrow> signal" where
  "complex_signal n =
     (if n \<noteq> 0 then (min (7 / 10) (1 / 5 + 3 / 20 * of_nat n), [ComplexKeywords n])
      else (0, []))"

definition moderate_signal :: "nat \<Rightarrow> signal" where
  "moderate_signal n =
     (if n \<noteq> 0 then (min (1 / 5) (1 / 10 * of_nat n), [ModerateKeywords n])
      else (0, []))"

definition simple_signal :: "nat \<Rightarrow> nat \<Rightarrow> nat \<Rightarrow> signal" where
  "simple_signal n_simple n_complex n_moderate =
     (if n_simple \<noteq> 0 \<and> n_complex = 0 \<and> n_moderate = 0
      then (- (3 / 20), [SimpleKeywords])
      else (0, []))"

subsection \<open>score\_request\<close>

text \<open>
  \<^verbatim>\<open>round(x, 3)\<close>: the nearest multiple of 0.001, a tie going to the even one.
\<close>

definition round_half_even :: "rat \<Rightarrow> int" where
  "round_half_even x =
     (let f = \<lfloor>x\<rfloor>; d = x - of_int f
      in if d < 1 / 2 then f
         else if d > 1 / 2 then f + 1
         else if even f then f else f + 1)"

definition round3 :: "rat \<Rightarrow> rat" where
  "round3 x = of_int (round_half_even (x * 1000)) / 1000"

record HeuristicResult =
  score :: rat
  reasons :: "reason list"
  confident :: bool

text \<open>\<^verbatim>\<open>_extract_text(user_msgs[-1:]) if user_msgs else ""\<close>\<close>

definition last_user_text :: "message list \<Rightarrow> string" where
  "last_user_text messages =
     (let user_msgs = filter (\<lambda>m. role m = Some ''user'') messages
      in if user_msgs \<noteq> [] then extract_text [last user_msgs] else [])"

text \<open>The signals in the order in which \<^verbatim>\<open>score_request\<close> adds them.\<close>

definition signals :: "matchers \<Rightarrow> message list \<Rightarrow> json list option \<Rightarrow> signal list" where
  "signals mt messages tools =
     (let full_text = extract_text messages;
          total_tokens = estimate_tokens full_text;
          num_turns = length messages;
          lut = last_user_text messages;
          n_complex = complex_count mt lut;
          n_moderate = moderate_count mt lut;
          n_simple = simple_count mt lut
      in [token_signal total_tokens,
          turn_signal num_turns,
          tool_signal tools,
          system_signal messages,
          code_signal full_text,
          image_signal full_text,
          complex_signal n_complex,
          moderate_signal n_moderate,
          simple_signal n_simple n_complex n_moderate])"

text \<open>The value of \<^verbatim>\<open>score\<close> before the clamp.\<close>

definition raw_score :: "matchers \<Rightarrow> message list \<Rightarrow> json list option \<Rightarrow> rat" where
  "raw_score mt messages tools = foldl (\<lambda>acc sg. acc + fst sg) 0 (signals mt messages tools)"

definition score_request ::
  "matchers \<Rightarrow> RouterConfig \<Rightarrow> message list \<Rightarrow> json list option \<Rightarrow> HeuristicResult" where
  "score_request mt cfg messages tools =
     (let sgs = signals mt messages tools;
          clamped = max 0 (min 1 (raw_score mt messages tools));
          low_thresh = heuristic_low_threshold cfg;
          high_thresh = heuristic_high_threshold cfg;
          margin = 1 / 10;
          conf = (clamped < low_thresh - margin
                  \<or> (low_thresh + margin \<le> clamped \<and> clamped \<le> high_thresh - margin)
                  \<or> clamped > high_thresh + margin)
      in \<lparr>score = round3 clamped, reasons = concat (map snd sgs), confident = conf\<rparr>)"

subsection \<open>Example requests\<close>

text \<open>
  Matchers that find nothing, and the request of the \<^verbatim>\<open>simple_messages\<close> fixture with
  the one match \<^verbatim>\<open>What is\<close> of the simple keywords.
\<close>

definition no_matches :: matchers where
  "no_matches = \<lparr>complex_count = (\<lambda>t. 0), moderate_count = (\<lambda>t. 0),
                  simple_count = (\<lambda>t. 0), code_indicator = (\<lambda>t. False)\<rparr>"

definition simple_matches :: matchers where
  "simple_matches = \<lparr>complex_count = (\<lambda>t. 0), moderate_count = (\<lambda>t. 0),
                      simple_count = (\<lambda>t. if t = ''What is 2+2?'' then 1 else 0),
                      code_indicator = (\<lambda>t. False)\<rparr>"

definition simple_messages :: "message list" where
  "simple_messages = [\<lparr>role = Some ''user'', content = Some (CStr ''What is 2+2?'')\<rparr>]"

text \<open>Matchers that find four complex and two moderate keywords in every text.\<close>

definition heavy_matches :: matchers where
  "heavy_matches = \<lparr>complex_count = (\<lambda>t. 4), moderate_count = (\<lambda>t. 2),
                     simple_count = (\<lambda>t. 0), code_indicator = (\<lambda>t. False)\<rparr>"

definition four_tools :: "json list option" where
  "four_tools = Some [JNull, JNull, JNull, JNull]"

section \<open>Classifier escalation (classifier.py)\<close>

subsection \<open>Messages as the classifier receives them\<close>

text \<open>
  \<^verbatim>\<open>classify_complexity\<close> is handed the message dicts of the request body as they were
  decoded. Besides what a well-typed message holds, a part of type \<^verbatim>\<open>text\<close> may carry a
  \<^verbatim>\<open>text\<close> that is present but not a str (\<^verbatim>\<open>null\<close>, a number, a list): \<open>NonStrText\<close>.
\<close>

datatype part_text = NoText | StrText string | NonStrText

datatype raw_block = RawText part_text | RawImageUrl | RawOther

datatype raw_content = RawStr string | RawParts "raw_block list" | RawOtherContent string

record raw_message =
  raw_role :: "string option"
  raw_content :: "raw_content option"

text \<open>A well-typed message, seen as a received one.\<close>

fun raw_block_of :: "block \<Rightarrow> raw_block" where
  "raw_block_of (TextBlock None) = RawText NoText"
| "raw_block_of (TextBlock (Some t)) = RawText (StrText t)"
| "raw_block_of ImageUrlBlock = RawImageUrl"
| "raw_block_of OtherBlock = RawOther"

fun raw_content_of :: "content \<Rightarrow> raw_content" where
  "raw_content_of (CStr s) = RawStr s"
| "raw_content_of (CParts bs) = RawParts (map raw_block_of bs)"
| "raw_content_of (COther r) = RawOtherContent r"

definition raw_message_of :: "message \<Rightarrow> raw_message" where
  "raw_message_of m = \<lparr>raw_role = role m, raw_content = map_option raw_content_of (content m)\<rparr>"

text \<open>Every text part carries a str or no text at all.\<close>

fun block_ok :: "raw_block \<Rightarrow> bool" where
  "block_ok (RawText NonStrText) = False"
| "block_ok _ = True"

fun content_ok :: "raw_content option \<Rightarrow> bool" where
  "content_ok (Some (RawParts bs)) = list_all block_ok bs"
| "content_ok _ = True"

definition text_parts_ok :: "raw_message list \<Rightarrow> bool" where
  "text_parts_ok messages = list_all (\<lambda>m. content_ok (raw_content m)) messages"

subsection \<open>\_condense\_messages\<close>

text \<open>Sequencing of steps that may raise.\<close>

definition bind_err :: "py_error + 'a \<Rightarrow> ('a \<Rightarrow> py_error + 'b) \<Rightarrow> py_error + 'b" where
  "bind_err r f = (case r of Inl e \<Rightarrow> Inl e | Inr v \<Rightarrow> f v)"

text \<open>
  What a part appends to \<^verbatim>\<open>text_parts\<close>: \<^verbatim>\<open>block.get("text", "")\<close> whatever it is, with
  \<open>None\<close> for an item that is not a str.
\<close>

fun block_condensed :: "raw_block \<Rightarrow> string option list" where
  "block_condensed (RawText NoText) = [Some []]"
| "block_condensed (RawText (StrText t)) = [Some t]"
| "block_condensed (RawText NonStrText) = [None]"
| "block_condensed RawImageUrl = [Some ''[image]'']"
| "block_condensed RawOther = []"

text \<open>\<^verbatim>\<open>sep.join(items)\<close> raises \<^verbatim>\<open>TypeError\<close> when an item is not a str.\<close>

definition join_items :: "string \<Rightarrow> string option list \<Rightarrow> py_error + string" where
  "join_items sep items =
     (case those items of None \<Rightarrow> Inl TypeError | Some ps \<Rightarrow> Inr (py_join sep ps))"

text \<open>The text that \<^verbatim>\<open>{content}\<close> prints in the f-string.\<close>

fun content_condensed :: "raw_content option \<Rightarrow> py_error + string" where
  "content_condensed None = Inr []"
| "content_condensed (Some (RawStr s)) = Inr s"
| "content_condensed (Some (RawParts bs)) = join_items '' '' (concat (map block_condensed bs))"
| "content_condensed (Some (RawOtherContent r)) = Inr r"

definition message_line :: "raw_message \<Rightarrow> py_error + string" where
  "message_line m =
     bind_err (content_condensed (raw_content m)) (\<lambda>c.
     Inr ((case raw_role m of None \<Rightarrow> ''unknown'' | Some r \<Rightarrow> r) @ '': '' @ c))"

text \<open>The loop over the messages, which stops at the first one that raises.\<close>

fun condense_lines :: "raw_message list \<Rightarrow> py_error + string list" where
  "condense_lines [] = Inr []"
| "condense_lines (m # ms) =
     bind_err (message_line m) (\<lambda>l.
     bind_err (condense_lines ms) (\<lambda>ls. Inr (l # ls)))"

definition condense_messages :: "raw_message list \<Rightarrow> py_error + string" where
  "condense_messages messages =
     bind_err (condense_lines messages) (\<lambda>parts.
     (let full_text = py_join [CHR 0x0A] parts
      in if length full_text > 2000
         then Inr (take 500 full_text @ [CHR 0x0A] @ ''...'' @ [CHR 0x0A]
                   @ drop (length full_text - 1500) full_text)
         else Inr full_text))"

subsection \<open>String and conversion helpers\<close>

text \<open>\<^verbatim>\<open>s.strip()\<close>, \<^verbatim>\<open>s.strip("`")\<close> and \<^verbatim>\<open>s.removeprefix(p)\<close>.\<close>

definition strip_with :: "(char \<Rightarrow> bool) \<Rightarrow> string \<Rightarrow> string" where
  "strip_with P s = rev (dropWhile P (rev (dropWhile P s)))"

definition py_strip :: "string \<Rightarrow> string" where
  "py_strip s = strip_with is_space s"

definition removeprefix :: "string \<Rightarrow> string \<Rightarrow> string" where
  "removeprefix p s = (if starts_with p s then drop (length p) s else s)"

text \<open>
  \<^verbatim>\<open>x[0]\<close>: the first item of a list, the first character of a str; a dict has only
  string keys, so the key 0 is missing.
\<close>

fun py_first :: "json \<Rightarrow> py_error + json" where
  "py_first (JArr []) = Inl IndexError"
| "py_first (JArr (x # xs)) = Inr x"
| "py_first (JStr []) = Inl IndexError"
| "py_first (JStr (c # cs)) = Inr (JStr [c])"
| "py_first (JObj kvs) = Inl KeyError"
| "py_first _ = Inl TypeError"

text \<open>\<^verbatim>\<open>x.strip()\<close> on a decoded value: only a str has the method.\<close>

fun py_strip_value :: "json \<Rightarrow> py_error + string" where
  "py_strip_value (JStr s) = Inr (py_strip s)"
| "py_strip_value _ = Inl AttributeError"

text \<open>
  What the classifier talks to: the backend, which answers a request for a model and a
  condensed transcript; \<^verbatim>\<open>json.loads\<close> (\<open>None\<close> when it raises); and \<^verbatim>\<open>int\<close> on a str
  (\<open>None\<close> when it raises).
\<close>

record response =
  status_raises :: bool
  body :: "json option"

datatype post_result = PostRaises | PostReturns response

record classifier_env =
  backend :: "string \<Rightarrow> string \<Rightarrow> post_result"
  json_loads :: "string \<Rightarrow> json option"
  int_of_str :: "string \<Rightarrow> int option"

text \<open>
  \<^verbatim>\<open>int(x)\<close> on a decoded value: a float is truncated towards zero, \<^verbatim>\<open>nan\<close> and the
  infinities raise, as do \<^verbatim>\<open>None\<close>, lists and dicts.
\<close>

fun py_int :: "classifier_env \<Rightarrow> json \<Rightarrow> py_error + int" where
  "py_int env (JInt n) = Inr n"
| "py_int env (JBool b) = Inr (if b then 1 else 0)"
| "py_int env (JFloat x) = Inr (if x < 0 then - \<lfloor>- x\<rfloor> else \<lfloor>x\<rfloor>)"
| "py_int env JNonFinite = Inl ValueError"
| "py_int env (JStr s) = (case int_of_str env s of Some n \<Rightarrow> Inr n | None \<Rightarrow> Inl ValueError)"
| "py_int env _ = Inl TypeError"

text \<open>\<^verbatim>\<open>Tier(n)\<close>\<close>

definition tier_of_int :: "int \<Rightarrow> py_error + Tier" where
  "tier_of_int n =
     (if n = 1 then Inr SMALL else if n = 2 then Inr MEDIUM else if n = 3 then Inr LARGE
      else Inl ValueError)"

subsection \<open>classify\_complexity\<close>

text \<open>
  Lines 37-54: the configured classifier model, else the smallest SMALL model, else the
  smallest model; \<open>None\<close> when there is no model at all.
\<close>

definition select_classifier_model :: "RouterConfig \<Rightarrow> ModelRegistry \<Rightarrow> string option" where
  "select_classifier_model cfg reg =
     (if classifier_model cfg \<noteq> [] then Some (classifier_model cfg)
      else (case by_tier reg SMALL of
              s # ss \<Rightarrow> Some (model_id (min_from effective_params s ss))
            | [] \<Rightarrow>
                (case model_values reg of
                   m # ms \<Rightarrow> Some (model_id (min_from effective_params m ms))
                 | [] \<Rightarrow> None)))"

text \<open>Lines 79-80: a leading code fence is stripped.\<close>

definition unfence :: "string \<Rightarrow> string" where
  "unfence result_text =
     (if starts_with ''```'' result_text
      then py_strip (removeprefix ''json'' (strip_with (\<lambda>c. c = CHR 0x60) result_text))
      else result_text)"

text \<open>The body of the try block, lines 60-91.\<close>

definition classifier_try ::
  "classifier_env \<Rightarrow> string \<Rightarrow> string \<Rightarrow> py_error + (Tier \<times> json)" where
  "classifier_try env mdl condensed =
     (case backend env mdl condensed of
        PostRaises \<Rightarrow> Inl HTTPError
      | PostReturns resp \<Rightarrow>
          if status_raises resp then Inl HTTPError
          else (case body resp of
                  None \<Rightarrow> Inl JSONDecodeError
                | Some j \<Rightarrow>
                    bind_err (py_getitem j ''choices'') (\<lambda>choices.
                    bind_err (py_first choices) (\<lambda>choice.
                    bind_err (py_getitem choice ''message'') (\<lambda>msg.
                    bind_err (py_getitem msg ''content'') (\<lambda>cont.
                    bind_err (py_strip_value cont) (\<lambda>result_text.
                    (case json_loads env (unfence result_text) of
                       None \<Rightarrow> Inl JSONDecodeError
                     | Some parsed \<Rightarrow>
                         bind_err (py_getitem parsed ''tier'') (\<lambda>tier_field.
                         bind_err (py_int env tier_field) (\<lambda>tier_num.
                         bind_err (py_get parsed ''reason'' (JStr [])) (\<lambda>reason.
                         bind_err (tier_of_int (max 1 (min 3 tier_num))) (\<lambda>t.
                         Inr (t, reason)))))))))))))"

text \<open>
  \<^verbatim>\<open>classify_complexity\<close>: \<open>Inl\<close> is an exception that reaches the caller. The
  transcript is condensed at line 57, after the model is chosen and before the try
  block is entered, so what \<^verbatim>\<open>_condense_messages\<close> raises is not caught.
\<close>

definition classify_complexity ::
  "classifier_env \<Rightarrow> RouterConfig \<Rightarrow> ModelRegistry \<Rightarrow> raw_message list
     \<Rightarrow> py_error + (Tier \<times> json)" where
  "classify_complexity env cfg reg messages =
     (case select_classifier_model cfg reg of
        None \<Rightarrow> Inr (MEDIUM, JStr ''no classifier model available'')
      | Some mdl \<Rightarrow>
          (case condense_messages messages of
             Inl e \<Rightarrow> Inl e
           | Inr condensed \<Rightarrow>
               (case classifier_try env mdl condensed of
                  Inl e \<Rightarrow> Inr (MEDIUM, JStr ''classifier error, defaulting to medium'')
                | Inr res \<Rightarrow> Inr res)))"

text \<open>
  A completion response of the conventional shape, with status 200, whose first choice
  carries the message content \<open>s\<close>.
\<close>

definition chat_reply :: "string \<Rightarrow> post_result" where
  "chat_reply s =
     PostReturns \<lparr>status_raises = False,
                  body = Some (JObj [(''choices'',
                           JArr [JObj [(''message'', JObj [(''content'', JStr s)])]])])\<rparr>"

subsection \<open>Example backends\<close>

text \<open>
  A decoder that knows two texts, a backend that is unreachable, one that answers with
  an error status, and one whose model replies inside a code fence with tier 7.
\<close>

definition toy_loads :: "string \<Rightarrow> json option" where
  \<open>toy_loads s =
     (if s = ''{"tier": 7, "reason": "hard"}''
      then Some (JObj [(''tier'', JInt 7), (''reason'', JStr ''hard'')])
      else if s = ''{"reason": "hard"}'' then Some (JObj [(''reason'', JStr ''hard'')])
      else None)\<close>

definition env_down :: classifier_env where
  "env_down = \<lparr>backend = (\<lambda>mdl t. PostRaises), json_loads = toy_loads,
                int_of_str = (\<lambda>s. None)\<rparr>"

definition env_status :: classifier_env where
  "env_status = \<lparr>backend = (\<lambda>mdl t. PostReturns \<lparr>status_raises = True, body = None\<rparr>),
                  json_loads = toy_loads, int_of_str = (\<lambda>s. None)\<rparr>"

definition env_fenced :: classifier_env where
  \<open>env_fenced = \<lparr>backend = (\<lambda>mdl t. chat_reply ''```json{"tier": 7, "reason": "hard"}```''),
                  json_loads = toy_loads, int_of_str = (\<lambda>s. None)\<rparr>\<close>

definition env_prose :: classifier_env where
  "env_prose = \<lparr>backend = (\<lambda>mdl t. chat_reply ''I think this is hard.''),
                 json_loads = toy_loads, int_of_str = (\<lambda>s. None)\<rparr>"

definition env_no_tier :: classifier_env where
  \<open>env_no_tier = \<lparr>backend = (\<lambda>mdl t. chat_reply ''{"reason": "hard"}''),
                   json_loads = toy_loads, int_of_str = (\<lambda>s. None)\<rparr>\<close>

text \<open>
  The request of the \<^verbatim>\<open>simple_messages\<close> fixture as received, and a request whose only
  part is \<^verbatim>\<open>{"type": "text", "text": null}\<close>.
\<close>

definition simple_received :: "raw_message list" where
  "simple_received = [\<lparr>raw_role = Some ''user'', raw_content = Some (RawStr ''What is 2+2?'')\<rparr>]"

definition null_text_received :: "raw_message list" where
  "null_text_received =
     [\<lparr>raw_role = Some ''user'', raw_content = Some (RawParts [RawText NonStrText])\<rparr>]"

section \<open>Routing (router.py)\<close>

definition score_to_tier :: "RouterConfig \<Rightarrow> rat \<Rightarrow> Tier" where
  "score_to_tier cfg sc =
     (if sc \<le> heuristic_low_threshold cfg then SMALL
      else if sc \<ge> heuristic_high_threshold cfg then LARGE
      else MEDIUM)"

subsection \<open>\_is\_coding\_request\<close>

text \<open>\<^verbatim>\<open>code_indicators.search(text)\<close> or \<^verbatim>\<open>code_fence.search(text)\<close>.\<close>

definition looks_like_code :: "matchers \<Rightarrow> string \<Rightarrow> bool" where
  "looks_like_code mt t \<longleftrightarrow> code_indicator mt t \<or> contains ''```'' t"

fun block_is_code :: "matchers \<Rightarrow> block \<Rightarrow> bool" where
  "block_is_code mt (TextBlock None) = looks_like_code mt ''''"
| "block_is_code mt (TextBlock (Some t)) = looks_like_code mt t"
| "block_is_code mt _ = False"

fun content_is_code :: "matchers \<Rightarrow> content option \<Rightarrow> bool" where
  "content_is_code mt None = looks_like_code mt ''''"
| "content_is_code mt (Some (CStr s)) = looks_like_code mt s"
| "content_is_code mt (Some (CParts bs)) = list_ex (block_is_code mt) bs"
| "content_is_code mt (Some (COther r)) = False"

text \<open>\<^verbatim>\<open>xs[-3:]\<close>\<close>

definition last3 :: "'a list \<Rightarrow> 'a list" where
  "last3 xs = drop (length xs - 3) xs"

definition is_coding_request :: "matchers \<Rightarrow> message list \<Rightarrow> bool" where
  "is_coding_request mt messages =
     (let user_msgs = last3 (filter (\<lambda>m. role m = Some ''user'') messages)
      in list_ex (\<lambda>m. content_is_code mt (content m)) user_msgs)"

subsection \<open>The metadata dict\<close>

datatype meta_value =
  MStr string | MNum rat | MReasons "reason list" | MBool bool | MJson json

text \<open>\<^verbatim>\<open>tier.name\<close>\<close>

fun tier_name :: "Tier \<Rightarrow> string" where
  "tier_name SMALL = ''SMALL''"
| "tier_name MEDIUM = ''MEDIUM''"
| "tier_name LARGE = ''LARGE''"

text \<open>Truth value of a decoded value, for \<^verbatim>\<open>if classifier_reason:\<close>.\<close>

fun json_truthy :: "json \<Rightarrow> bool" where
  "json_truthy JNull = False"
| "json_truthy (JBool b) = b"
| "json_truthy (JInt n) = (n \<noteq> 0)"
| "json_truthy (JFloat x) = (x \<noteq> 0)"
| "json_truthy JNonFinite = True"
| "json_truthy (JStr s) = (s \<noteq> [])"
| "json_truthy (JArr xs) = (xs \<noteq> [])"
| "json_truthy (JObj kvs) = (kvs \<noteq> [])"

subsection \<open>route\_request\<close>

text \<open>
  Step 2: the tier, the routing method and the classifier's reason. The classifier reads
  the registry through \<^verbatim>\<open>get_registry()\<close>, which is the object \<^verbatim>\<open>refresh_models\<close> has
  just returned, and is handed the messages as they are.
\<close>

definition resolve_tier ::
  "classifier_env \<Rightarrow> RouterConfig \<Rightarrow> ModelRegistry \<Rightarrow> message list \<Rightarrow> HeuristicResult
     \<Rightarrow> py_error + (Tier \<times> string \<times> json)" where
  "resolve_tier env cfg reg messages heuristic =
     (if confident heuristic
      then Inr (score_to_tier cfg (score heuristic), ''heuristic'', JStr [])
      else (case classify_complexity env cfg reg (map raw_message_of messages) of
              Inl e \<Rightarrow> Inl e
            | Inr (t, classifier_reason) \<Rightarrow> Inr (t, ''classifier'', classifier_reason)))"

text \<open>Lines 67-76: the metadata of a scored request.\<close>

definition routing_metadata ::
  "string \<Rightarrow> HeuristicResult \<Rightarrow> Tier \<Rightarrow> ModelInfo \<Rightarrow> bool \<Rightarrow> json
     \<Rightarrow> (string \<times> meta_value) list" where
  "routing_metadata routing_method heuristic t model prefer_coder classifier_reason =
     [(''routing'', MStr routing_method),
      (''heuristic_score'', MNum (score heuristic)),
      (''heuristic_reasons'', MReasons (reasons heuristic)),
      (''tier'', MStr (tier_name t)),
      (''selected_model'', MStr (model_id model)),
      (''prefer_coder'', MBool prefer_coder)]
     @ (if json_truthy classifier_reason
        then [(''classifier_reason'', MJson classifier_reason)] else [])"

text \<open>
  \<^verbatim>\<open>route_request\<close> after \<^verbatim>\<open>refresh_models()\<close> has returned the registry \<open>reg\<close>, under
  the configuration \<open>cfg\<close> then in force.
\<close>

definition route_with ::
  "matchers \<Rightarrow> classifier_env \<Rightarrow> RouterConfig \<Rightarrow> ModelRegistry \<Rightarrow> message list
     \<Rightarrow> json list option \<Rightarrow> string option
     \<Rightarrow> py_error + (ModelInfo \<times> (string \<times> meta_value) list)" where
  "route_with mt env cfg reg messages tools requested_model =
     (case (case requested_model of
              None \<Rightarrow> None
            | Some rm \<Rightarrow> if rm \<noteq> [] then map_option (Pair rm) (map_of (models reg) rm) else None) of
        Some (rm, model) \<Rightarrow>
          Inr (model, [(''routing'', MStr ''explicit''), (''requested_model'', MStr rm)])
      | None \<Rightarrow>
          (let heuristic = score_request mt cfg messages tools
           in case resolve_tier env cfg reg messages heuristic of
                Inl e \<Rightarrow> Inl e
              | Inr (t, routing_method, classifier_reason) \<Rightarrow>
                  (let prefer_coder = is_coding_request mt messages
                   in case get_model_for_tier reg t prefer_coder of
                        None \<Rightarrow> Inl RuntimeError
                      | Some model \<Rightarrow>
                          Inr (model, routing_metadata routing_method heuristic t model
                                        prefer_coder classifier_reason))))"

text \<open>
  \<^verbatim>\<open>route_request\<close> from a state of the globals: the registry is refreshed first
  (not forced); an exception of the refresh propagates.
\<close>

definition route_request ::
  "matchers \<Rightarrow> classifier_env \<Rightarrow> rat \<Rightarrow> fetch_result \<Rightarrow> RouterConfig \<Rightarrow> router_state
     \<Rightarrow> message list \<Rightarrow> json list option \<Rightarrow> string option
     \<Rightarrow> (py_error + (ModelInfo \<times> (string \<times> meta_value) list)) \<times> router_state" where
  "route_request mt env now fetch loaded s messages tools requested_model =
     (case refresh_models False now fetch loaded s of
        (Inl e, s') \<Rightarrow> (Inl e, s')
      | (Inr reg, s') \<Rightarrow>
          (route_with mt env (config s') reg messages tools requested_model, s'))"

text \<open>The six entries claim C9 speaks of.\<close>

definition has_full_metadata ::
  "(string \<times> meta_value) list \<Rightarrow> HeuristicResult \<Rightarrow> Tier \<Rightarrow> ModelInfo \<Rightarrow> bool \<Rightarrow> bool" where
  "has_full_metadata meta heuristic t model prefer_coder \<longleftrightarrow>
     (map_of meta ''routing'' = Some (MStr ''heuristic'')
        \<or> map_of meta ''routing'' = Some (MStr ''classifier''))
     \<and> map_of meta ''heuristic_score'' = Some (MNum (score heuristic))
     \<and> map_of meta ''heuristic_reasons'' = Some (MReasons (reasons heuristic))
     \<and> map_of meta ''tier'' = Some (MStr (tier_name t))
     \<and> map_of meta ''selected_model'' = Some (MStr (model_id model))
     \<and> map_of meta ''prefer_coder'' = Some (MBool prefer_coder)"

subsection \<open>Example metadata\<close>

text \<open>
  The metadata of three routes over the one-model registry: by explicit request, by the
  heuristic, and by the classifier.
\<close>

definition explicit_meta :: "(string \<times> meta_value) list" where
  "explicit_meta = [(''routing'', MStr ''explicit''), (''requested_model'', MStr ''medium'')]"

definition heuristic_meta :: "(string \<times> meta_value) list" where
  "heuristic_meta =
     [(''routing'', MStr ''heuristic''), (''heuristic_score'', MNum 0),
      (''heuristic_reasons'', MReasons [VeryShort 3, SimpleKeywords]),
      (''tier'', MStr ''SMALL''), (''selected_model'', MStr ''medium''),
      (''prefer_coder'', MBool False)]"

definition classifier_meta :: "(string \<times> meta_value) list" where
  "classifier_meta =
     [(''routing'', MStr ''classifier''), (''heuristic_score'', MNum (1 / 5)),
      (''heuristic_reasons'', MReasons [VeryShort 3, ManyTools 4]),
      (''tier'', MStr ''LARGE''), (''selected_model'', MStr ''medium''),
      (''prefer_coder'', MBool False), (''classifier_reason'', MJson (JStr ''hard''))]"

section \<open>The registry methods as operations on the object\<close>

text \<open>
  \<^verbatim>\<open>by_tier\<close> and \<^verbatim>\<open>get_model_for_tier\<close> are methods: they receive the registry object
  \<^verbatim>\<open>self\<close> and could write to it. Here they are translated once more, statement by
  statement, as computations in a state monad whose state is the object, so that what
  they do to it is part of their meaning. The source reads \<^verbatim>\<open>self.models\<close> and builds
  new lists; it contains no assignment to an attribute of \<^verbatim>\<open>self\<close> or of a model.
\<close>

definition by_tier_op :: "Tier \<Rightarrow> (ModelRegistry, ModelInfo list) state" where
  "by_tier_op t =
     do {
       self \<leftarrow> State_Monad.get;
       State_Monad.return (filter (\<lambda>m. tier m = t) (map snd (models self)))
     }"

fun search_higher_op :: "Tier \<Rightarrow> Tier list \<Rightarrow> ModelInfo list \<Rightarrow> (ModelRegistry, ModelInfo list) state" where
  "search_higher_op t [] cands = State_Monad.return cands"
| "search_higher_op t (ft # fts) cands =
     (if tier_value ft > tier_value t
      then do {
             c \<leftarrow> by_tier_op ft;
             if c \<noteq> [] then State_Monad.return c else search_higher_op t fts c
           }
      else search_higher_op t fts cands)"

fun search_lower_op :: "Tier \<Rightarrow> Tier list \<Rightarrow> ModelInfo list \<Rightarrow> (ModelRegistry, ModelInfo list) state" where
  "search_lower_op t [] cands = State_Monad.return cands"
| "search_lower_op t (ft # fts) cands =
     (if tier_value ft < tier_value t
      then do {
             c \<leftarrow> by_tier_op ft;
             if c \<noteq> [] then State_Monad.return c else search_lower_op t fts c
           }
      else search_lower_op t fts cands)"

fun search_general_op :: "Tier \<Rightarrow> Tier list \<Rightarrow> (ModelRegistry, ModelInfo option) state" where
  "search_general_op t [] = State_Monad.return None"
| "search_general_op t (ft # fts) =
     (if ft \<noteq> t
      then do {
             ms \<leftarrow> by_tier_op ft;
             case filter (\<lambda>m. \<not> is_coder m) ms of
               g # gs \<Rightarrow> State_Monad.return (Some (max_from effective_params g gs))
             | [] \<Rightarrow> search_general_op t fts
           }
      else search_general_op t fts)"

definition get_model_for_tier_op :: "Tier \<Rightarrow> bool \<Rightarrow> (ModelRegistry, ModelInfo option) state" where
  "get_model_for_tier_op t prefer_coder =
     do {
       c0 \<leftarrow> by_tier_op t;
       c1 \<leftarrow> (if c0 = [] then search_higher_op t all_tiers c0 else State_Monad.return c0);
       c2 \<leftarrow> (if c1 = [] then search_lower_op t (rev all_tiers) c1 else State_Monad.return c1);
       case c2 of
         [] \<Rightarrow> State_Monad.return None
       | c # cs \<Rightarrow>
           if prefer_coder
           then (case filter is_coder (c # cs) of
                   k # ks \<Rightarrow> State_Monad.return (Some (max_from effective_params k ks))
                 | [] \<Rightarrow> State_Monad.return (Some (max_from effective_params c cs)))
           else (case filter (\<lambda>m. \<not> is_coder m) (c # cs) of
                   g # gs \<Rightarrow> State_Monad.return (Some (max_from effective_params g gs))
                 | [] \<Rightarrow>
                     do {
                       found \<leftarrow> search_general_op t all_tiers;
                       case found of
                         Some m \<Rightarrow> State_Monad.return (Some m)
                       | None \<Rightarrow> State_Monad.return (Some (max_from effective_params c cs))
                     })
     }"

section \<open>Building the example models\<close>

lemmas regex_defs = param_findall_def param_match_at_def match_number_def is_digit_def
  is_space_def is_word_def boundary_after_def py_float_def nat_of_digits_def digit_val_def
  search_ci_def to_lower_def is_chat_model_def

lemma build_gemma: "build_model_info default_config ''gemma-3-4b'' = Inr (Some small_general)"
  by (simp add: build_model_info_def extract_params_def regex_defs small_general_def
        default_config_def classify_tier_def py_or_def)

lemma build_gpt4o: "build_model_info default_config ''gpt-4o'' = Inr (Some unknown_model)"
  by (simp add: build_model_info_def extract_params_def regex_defs unknown_model_def
        default_config_def classify_tier_def py_or_def)

lemma build_coder:
  "build_model_info default_config ''qwen2.5-coder-32b'' = Inr (Some large_coder)"
  by (simp add: build_model_info_def extract_params_def regex_defs large_coder_def
        default_config_def classify_tier_def py_or_def)

lemma build_nomic: "build_model_info cfg ''nomic-embed-text:latest'' = Inr None"
  by (simp add: build_model_info_def regex_defs)

lemma build_zero_total:
  "build_model_info default_config ''m-0b-a3b'' = Inr (Some zero_total_model)"
  by (simp add: build_model_info_def extract_params_def regex_defs zero_total_model_def
        default_config_def classify_tier_def py_or_def)

section \<open>Properties of the registry\<close>

lemma max_from_mem: "max_from key b xs \<in> set (b # xs)"
  by (induction xs arbitrary: b) auto

lemma max_from_ge_best: "key b \<le> key (max_from key b xs)"
proof (induction xs arbitrary: b)
  case Nil
  then show ?case by simp
next
  case (Cons x xs)
  show ?case
  proof (cases "key x > key b")
    case True
    have "key x \<le> key (max_from key x xs)" by (rule Cons.IH)
    with True show ?thesis by simp
  next
    case False
    then show ?thesis using Cons.IH [of b] by simp
  qed
qed

lemma max_from_ge: "y \<in> set (b # xs) \<Longrightarrow> key y \<le> key (max_from key b xs)"
proof (induction xs arbitrary: b)
  case Nil
  then show ?case by simp
next
  case (Cons x xs)
  let ?b' = "if key x > key b then x else b"
  have step: "max_from key b (x # xs) = max_from key ?b' xs" by simp
  have ge: "key ?b' \<le> key (max_from key ?b' xs)" by (rule max_from_ge_best)
  from Cons.prems consider "y = b" | "y = x" | "y \<in> set xs" by auto
  then show ?case
  proof cases
    case 1
    have "key b \<le> key ?b'" by simp
    with ge 1 show ?thesis unfolding step by (meson order_trans)
  next
    case 2
    have "key x \<le> key ?b'" by simp
    with ge 2 show ?thesis unfolding step by (meson order_trans)
  next
    case 3
    then have "y \<in> set (?b' # xs)" by simp
    from Cons.IH [OF this] show ?thesis unfolding step .
  qed
qed

lemma by_tier_all_empty: "by_tier reg SMALL = [] \<Longrightarrow> by_tier reg MEDIUM = [] \<Longrightarrow> by_tier reg LARGE = [] \<Longrightarrow> models reg = []"
proof (rule ccontr)
  assume a: "by_tier reg SMALL = []" "by_tier reg MEDIUM = []" "by_tier reg LARGE = []"
  assume "models reg \<noteq> []"
  then obtain m where m: "m \<in> set (model_values reg)"
    by (cases "models reg") (auto simp: model_values_def)
  then have "m \<in> set (by_tier reg (tier m))" by (simp add: by_tier_def)
  with a show False by (cases "tier m") auto
qed

lemma by_tier_Nil: "models reg = [] \<Longrightarrow> by_tier reg t = []"
  by (simp add: by_tier_def model_values_def)

lemma candidates_spec: "candidates reg t = spec_candidates reg t"
  by (cases t) (simp_all add: candidates_def spec_candidates_def all_tiers_def Let_def)

lemma candidates_Nil_iff: "candidates reg t = [] \<longleftrightarrow> models reg = []"
proof
  assume "candidates reg t = []"
  then have "by_tier reg SMALL = [] \<and> by_tier reg MEDIUM = [] \<and> by_tier reg LARGE = []"
    by (cases t) (auto simp: candidates_def all_tiers_def Let_def split: if_splits)
  then show "models reg = []" by (simp add: by_tier_all_empty)
next
  assume "models reg = []"
  then have "\<And>ft. by_tier reg ft = []" by (rule by_tier_Nil)
  then show "candidates reg t = []"
    by (cases t) (simp_all add: candidates_def all_tiers_def Let_def)
qed

lemma get_model_None_iff: "get_model_for_tier reg t pc = None \<longleftrightarrow> models reg = []"
  unfolding candidates_Nil_iff [symmetric, of reg t]
  by (simp add: get_model_for_tier_def split: list.splits option.splits)


lemma by_tier_subset: "m \<in> set (by_tier reg ft) \<Longrightarrow> m \<in> set (model_values reg)"
  by (simp add: by_tier_def)

lemma by_tier_tier: "m \<in> set (by_tier reg ft) \<Longrightarrow> tier m = ft"
  by (simp add: by_tier_def)

lemma candidates_cases:
  "candidates reg t = [] \<or> (\<exists>ft. candidates reg t = by_tier reg ft)"
  unfolding candidates_spec spec_candidates_def
  by (auto split: option.splits)

lemma candidates_subset: "m \<in> set (candidates reg t) \<Longrightarrow> m \<in> set (model_values reg)"
  using candidates_cases [of reg t] by (auto dest: by_tier_subset)

lemma max_from_largest: "is_largest_in (max_from effective_params b xs) (b # xs)"
  unfolding is_largest_in_def list_all_iff
  using max_from_mem [of effective_params b xs] max_from_ge [of _ b xs effective_params]
  by blast

lemma search_general_find:
  "search_general reg t fts =
     (case find (\<lambda>ft. ft \<noteq> t \<and> general_of (by_tier reg ft) \<noteq> []) fts of
        None \<Rightarrow> None
      | Some ft \<Rightarrow>
          (case general_of (by_tier reg ft) of
             g # gs \<Rightarrow> Some (max_from effective_params g gs)
           | [] \<Rightarrow> None))"
  by (induction fts) (auto simp: general_of_def split: list.splits)

lemma general_candidates_requested:
  assumes "general_of (candidates reg t) = []"
  shows "general_of (by_tier reg t) = []"
proof (cases "by_tier reg t = []")
  case True
  then show ?thesis by (simp add: general_of_def)
next
  case False
  then have "candidates reg t = by_tier reg t"
    by (simp add: candidates_spec spec_candidates_def)
  with assms show ?thesis by simp
qed

lemma find_cong_general:
  assumes "general_of (by_tier reg t) = []"
  shows "find (\<lambda>ft. ft \<noteq> t \<and> general_of (by_tier reg ft) \<noteq> []) fts
       = find (\<lambda>ft. general_of (by_tier reg ft) \<noteq> []) fts"
  using assms by (induction fts) auto

lemma find_all_tiers_None:
  assumes "find (\<lambda>ft. general_of (by_tier reg ft) \<noteq> []) all_tiers = None"
  shows "list_all is_coder (model_values reg)"
proof -
  have none: "\<And>ft. general_of (by_tier reg ft) = []"
  proof -
    fix ft
    from assms have "\<not> (\<exists>x\<in>set all_tiers. general_of (by_tier reg x) \<noteq> [])"
      by (auto simp: find_None_iff)
    moreover have "ft \<in> set all_tiers" by (cases ft) (simp_all add: all_tiers_def)
    ultimately show "general_of (by_tier reg ft) = []" by blast
  qed
  show ?thesis unfolding list_all_iff
  proof
    fix m assume "m \<in> set (model_values reg)"
    then have "m \<in> set (by_tier reg (tier m))" by (simp add: by_tier_def)
    with none [of "tier m"] show "is_coder m"
      by (auto simp: general_of_def filter_empty_conv)
  qed
qed


lemma search_general_mem:
  "search_general reg t fts = Some m \<Longrightarrow> m \<in> set (model_values reg)"
proof (induction fts)
  case Nil
  then show ?case by simp
next
  case (Cons ft fts)
  show ?case
  proof (cases "ft \<noteq> t \<and> filter (\<lambda>m. \<not> is_coder m) (by_tier reg ft) \<noteq> []")
    case True
    then obtain g gs where g: "filter (\<lambda>m. \<not> is_coder m) (by_tier reg ft) = g # gs"
      by (cases "filter (\<lambda>m. \<not> is_coder m) (by_tier reg ft)") auto
    with True Cons.prems have "m = max_from effective_params g gs" by simp
    then have "m \<in> set (g # gs)" using max_from_mem [of effective_params g gs] by simp
    then have "m \<in> set (by_tier reg ft)" unfolding g [symmetric] by simp
    then show ?thesis by (rule by_tier_subset)
  next
    case False
    with Cons.prems have "search_general reg t fts = Some m" by (auto split: list.splits)
    then show ?thesis by (rule Cons.IH)
  qed
qed

lemma get_model_mem:
  assumes "get_model_for_tier reg t pc = Some m"
  shows "m \<in> set (model_values reg)"
proof (cases "candidates reg t")
  case Nil
  with assms show ?thesis by (simp add: get_model_for_tier_def)
next
  case (Cons c cs)
  have sub: "\<And>x. x \<in> set (c # cs) \<Longrightarrow> x \<in> set (model_values reg)"
    using candidates_subset [of _ reg t] unfolding Cons .
  have whole: "max_from effective_params c cs \<in> set (model_values reg)"
    using max_from_mem [of effective_params c cs] sub by blast
  have part: "\<And>P k ks. filter P (c # cs) = k # ks \<Longrightarrow> max_from effective_params k ks \<in> set (model_values reg)"
  proof -
    fix P k ks assume f: "filter P (c # cs) = k # ks"
    have "max_from effective_params k ks \<in> set (k # ks)" by (rule max_from_mem)
    then have "max_from effective_params k ks \<in> set (filter P (c # cs))" unfolding f .
    then have "max_from effective_params k ks \<in> set (c # cs)" by (metis filter_is_subset subsetD)
    then show "max_from effective_params k ks \<in> set (model_values reg)" by (rule sub)
  qed
  from assms Cons show ?thesis
    unfolding get_model_for_tier_def
    by (auto split: if_splits list.splits option.splits
             dest: search_general_mem part simp: whole simp del: filter.simps)
qed

lemma general_of_all_coder:
  assumes "list_all is_coder (model_values reg)"
  shows "general_of (by_tier reg ft) = []"
  using assms by (auto simp: general_of_def filter_empty_conv list_all_iff dest: by_tier_subset)

lemma get_model_general:
  assumes "general_of (candidates reg t) = g # gs"
  shows "get_model_for_tier reg t False = Some (max_from effective_params g gs)"
proof (cases "candidates reg t")
  case Nil
  with assms show ?thesis by (simp add: general_of_def)
next
  case (Cons c cs)
  with assms have "filter (\<lambda>m. \<not> is_coder m) (c # cs) = g # gs" by (simp add: general_of_def)
  then show ?thesis unfolding get_model_for_tier_def Cons by (simp del: filter.simps)
qed

lemma get_model_no_general:
  assumes "candidates reg t = c # cs" and "general_of (candidates reg t) = []"
  shows "get_model_for_tier reg t False =
           (case search_general reg t all_tiers of
              Some m \<Rightarrow> Some m
            | None \<Rightarrow> Some (max_from effective_params c cs))"
proof -
  from assms have "filter (\<lambda>m. \<not> is_coder m) (c # cs) = []" by (simp add: general_of_def)
  then show ?thesis unfolding get_model_for_tier_def assms(1) by (simp del: filter.simps)
qed

lemma search_general_first:
  assumes "general_of (candidates reg t) = []"
  shows "search_general reg t all_tiers =
     (case find (\<lambda>ft. general_of (by_tier reg ft) \<noteq> []) all_tiers of
        None \<Rightarrow> None
      | Some ft \<Rightarrow>
          (case general_of (by_tier reg ft) of
             g # gs \<Rightarrow> Some (max_from effective_params g gs)
           | [] \<Rightarrow> None))"
  unfolding search_general_find
  using find_cong_general [OF general_candidates_requested [OF assms]] by simp

lemma get_model_prefer_coder:
  assumes "candidates reg t = c # cs"
  shows "get_model_for_tier reg t True =
           (case coders_of (candidates reg t) of
              k # ks \<Rightarrow> Some (max_from effective_params k ks)
            | [] \<Rightarrow> Some (max_from effective_params c cs))"
  unfolding get_model_for_tier_def assms coders_of_def
  by (simp del: filter.simps)

lemma get_model_prefer_coder_largest:
  assumes "get_model_for_tier reg t True = Some m"
  shows "if coders_of (candidates reg t) \<noteq> []
         then is_largest_in m (coders_of (candidates reg t))
         else is_largest_in m (candidates reg t)"
proof (cases "candidates reg t")
  case Nil
  with assms show ?thesis by (simp add: get_model_for_tier_def)
next
  case (Cons c cs)
  note get = get_model_prefer_coder [OF Cons]
  show ?thesis
  proof (cases "coders_of (candidates reg t)")
    case Nil
    with get assms have "m = max_from effective_params c cs" by simp
    then have "is_largest_in m (candidates reg t)"
      unfolding Cons by (simp add: max_from_largest)
    with Nil show ?thesis by simp
  next
    case (Cons k ks)
    with get assms have "m = max_from effective_params k ks" by simp
    then have "is_largest_in m (coders_of (candidates reg t))"
      unfolding Cons by (simp add: max_from_largest)
    with Cons show ?thesis by simp
  qed
qed

lemma get_model_general_largest:
  assumes "get_model_for_tier reg t False = Some m"
  shows "if general_of (candidates reg t) \<noteq> []
         then is_largest_in m (general_of (candidates reg t))
         else (case find (\<lambda>ft. general_of (by_tier reg ft) \<noteq> []) all_tiers of
                 Some ft \<Rightarrow> is_largest_in m (general_of (by_tier reg ft))
               | None \<Rightarrow> is_largest_in m (candidates reg t))"
proof (cases "candidates reg t")
  case Nil
  with assms show ?thesis by (simp add: get_model_for_tier_def)
next
  case (Cons c cs)
  show ?thesis
  proof (cases "general_of (candidates reg t)")
    case (Cons g gs)
    from get_model_general [OF Cons] assms have "m = max_from effective_params g gs" by simp
    then have "is_largest_in m (general_of (candidates reg t))"
      unfolding Cons by (simp add: max_from_largest)
    with Cons show ?thesis by simp
  next
    case Nil
    note get = get_model_no_general [OF Cons Nil]
    note sg = search_general_first [OF Nil]
    show ?thesis
    proof (cases "find (\<lambda>ft. general_of (by_tier reg ft) \<noteq> []) all_tiers")
      case None
      then have "search_general reg t all_tiers = None" using sg by simp
      with get assms have "m = max_from effective_params c cs" by simp
      then have "is_largest_in m (candidates reg t)"
        unfolding Cons by (simp add: max_from_largest)
      with Nil None show ?thesis by simp
    next
      case (Some ft)
      then have "general_of (by_tier reg ft) \<noteq> []" by (auto simp: find_Some_iff)
      then obtain g gs where g: "general_of (by_tier reg ft) = g # gs"
        by (cases "general_of (by_tier reg ft)") auto
      have "search_general reg t all_tiers = Some (max_from effective_params g gs)"
        using sg Some g by simp
      with get assms have "m = max_from effective_params g gs" by simp
      then have "is_largest_in m (general_of (by_tier reg ft))"
        unfolding g by (simp add: max_from_largest)
      with Nil Some show ?thesis by simp
    qed
  qed
qed

section \<open>Claims about the registry\<close>

text \<open>
  Claim C6, amended. \<^verbatim>\<open>effective_params\<close> is \<^verbatim>\<open>total_params\<close> when that is present
  and not zero; otherwise \<^verbatim>\<open>active_params\<close> when that is present; otherwise 0. A total
  count of zero is falsy for Python's \<^verbatim>\<open>or\<close> and is passed over like \<^verbatim>\<open>None\<close>.
\<close>

theorem effective_params_truthy:
  "effective_params m =
     (case total_params m of
        Some tp \<Rightarrow> (if tp \<noteq> 0 then tp
                    else (case active_params m of Some ap \<Rightarrow> ap | None \<Rightarrow> 0))
      | None \<Rightarrow> (case active_params m of Some ap \<Rightarrow> ap | None \<Rightarrow> 0))"
  by (simp add: effective_params_def py_or_def split: option.splits)

theorem effective_params_truthy_witness:
  "effective_params medium_model = 24 \<and> effective_params zero_total_model = 3"
proof -
  have "effective_params medium_model = 24"
    unfolding effective_params_truthy [of medium_model] by (simp add: medium_model_def)
  moreover have "effective_params zero_total_model = 3"
    unfolding effective_params_truthy [of zero_total_model]
    by (simp add: zero_total_model_def)
  ultimately show ?thesis by blast
qed

text \<open>
  Claim C6 as stated fails: the model built for the identifier \<^verbatim>\<open>m-0b-a3b\<close> has
  \<^verbatim>\<open>total_params = 0.0\<close> and \<^verbatim>\<open>active_params = 3.0\<close>; its total is present, yet its
  \<^verbatim>\<open>effective_params\<close> is 3, not 0.
\<close>

theorem effective_params_zero_total_counterexample:
  "build_model_info default_config ''m-0b-a3b'' = Inr (Some zero_total_model)
   \<and> total_params zero_total_model = Some 0
   \<and> effective_params zero_total_model = 3"
  using build_zero_total
  by (simp add: zero_total_model_def effective_params_def py_or_def)

text \<open>
  Claim C1. \<^verbatim>\<open>get_model_for_tier\<close> returns \<^verbatim>\<open>None\<close> exactly when the registry holds no
  model. The candidates are the models of the requested tier, else those of the first
  non-empty strictly higher tier in ascending order, else those of the first non-empty
  strictly lower tier in descending order, and the returned model is taken from them:
  with coder preference it is a largest coder among the candidates, or a largest
  candidate when none is a coder; without it, a largest non-coder among the candidates,
  or, when every candidate is a coder, a largest non-coder of the first tier in
  enumeration order that holds one, or a largest candidate when no tier does. On a
  non-empty registry whose models are all MEDIUM, a request for SMALL returns a MEDIUM
  model of the registry.
\<close>

theorem get_model_for_tier_fallback:
  "(get_model_for_tier reg t prefer_coder = None \<longleftrightarrow> models reg = [])
   \<and> candidates reg t = spec_candidates reg t
   \<and> (get_model_for_tier reg t True = Some m \<longrightarrow>
        (if coders_of (spec_candidates reg t) \<noteq> []
         then is_largest_in m (coders_of (spec_candidates reg t))
         else is_largest_in m (spec_candidates reg t)))
   \<and> (get_model_for_tier reg t False = Some m \<longrightarrow>
        (if general_of (spec_candidates reg t) \<noteq> []
         then is_largest_in m (general_of (spec_candidates reg t))
         else (case find (\<lambda>ft. general_of (by_tier reg ft) \<noteq> []) all_tiers of
                 Some ft \<Rightarrow> is_largest_in m (general_of (by_tier reg ft))
               | None \<Rightarrow> is_largest_in m (spec_candidates reg t))))
   \<and> (models reg \<noteq> [] \<and> list_all (\<lambda>m. tier m = MEDIUM) (model_values reg) \<longrightarrow>
        (\<exists>m. get_model_for_tier reg SMALL prefer_coder = Some m
             \<and> m \<in> set (model_values reg) \<and> tier m = MEDIUM))"
proof (intro conjI impI)
  show "get_model_for_tier reg t prefer_coder = None \<longleftrightarrow> models reg = []"
    by (rule get_model_None_iff)
  show "candidates reg t = spec_candidates reg t"
    by (rule candidates_spec)
next
  assume "get_model_for_tier reg t True = Some m"
  from get_model_prefer_coder_largest [OF this]
  show "if coders_of (spec_candidates reg t) \<noteq> []
         then is_largest_in m (coders_of (spec_candidates reg t))
         else is_largest_in m (spec_candidates reg t)"
    unfolding candidates_spec .
next
  assume "get_model_for_tier reg t False = Some m"
  from get_model_general_largest [OF this]
  show "if general_of (spec_candidates reg t) \<noteq> []
         then is_largest_in m (general_of (spec_candidates reg t))
         else (case find (\<lambda>ft. general_of (by_tier reg ft) \<noteq> []) all_tiers of
                 Some ft \<Rightarrow> is_largest_in m (general_of (by_tier reg ft))
               | None \<Rightarrow> is_largest_in m (spec_candidates reg t))"
    unfolding candidates_spec .
next
  assume a: "models reg \<noteq> [] \<and> list_all (\<lambda>m. tier m = MEDIUM) (model_values reg)"
  then have "get_model_for_tier reg SMALL prefer_coder \<noteq> None"
    by (simp add: get_model_None_iff)
  then obtain m where m: "get_model_for_tier reg SMALL prefer_coder = Some m" by auto
  have "m \<in> set (model_values reg)" using m by (rule get_model_mem)
  moreover from this a have "tier m = MEDIUM" by (simp add: list_all_iff)
  ultimately show "\<exists>m. get_model_for_tier reg SMALL prefer_coder = Some m
      \<and> m \<in> set (model_values reg) \<and> tier m = MEDIUM"
    using m by blast
qed

theorem get_model_for_tier_fallback_witness:
  "models reg_medium_only \<noteq> []
   \<and> list_all (\<lambda>m. tier m = MEDIUM) (model_values reg_medium_only)
   \<and> (\<exists>m. get_model_for_tier reg_medium_only SMALL False = Some m
          \<and> m \<in> set (model_values reg_medium_only) \<and> tier m = MEDIUM)
   \<and> candidates reg_medium_only SMALL = [medium_model]
   \<and> spec_candidates reg_small_large MEDIUM = [large_general]
   \<and> get_model_for_tier reg_small_large MEDIUM True = Some large_general
   \<and> get_model_for_tier reg_small_large MEDIUM False = Some large_general"
proof -
  have h: "models reg_medium_only \<noteq> []
      \<and> list_all (\<lambda>m. tier m = MEDIUM) (model_values reg_medium_only)"
    by (simp add: reg_medium_only_def medium_model_def model_values_def)
  note inst = get_model_for_tier_fallback [of reg_medium_only SMALL False]
  from inst h have r: "\<exists>m. get_model_for_tier reg_medium_only SMALL False = Some m
          \<and> m \<in> set (model_values reg_medium_only) \<and> tier m = MEDIUM"
    by blast
  have "spec_candidates reg_medium_only SMALL = [medium_model]"
    by (simp add: spec_candidates_def reg_medium_only_def medium_model_def
          model_values_def by_tier_def)
  with inst have c: "candidates reg_medium_only SMALL = [medium_model]" by simp
  have sc: "spec_candidates reg_small_large MEDIUM = [large_general]"
    by (simp add: spec_candidates_def reg_small_large_def small_general_def
          large_general_def model_values_def by_tier_def)
  have ne: "models reg_small_large \<noteq> []" by (simp add: reg_small_large_def)
  have nc: "coders_of [large_general] = []" and ng: "general_of [large_general] \<noteq> []"
    by (simp_all add: coders_of_def general_of_def large_general_def)
  have only: "\<And>m. is_largest_in m [large_general] \<Longrightarrow> m = large_general"
    by (simp add: is_largest_in_def)
  have only_g: "\<And>m. is_largest_in m (general_of [large_general]) \<Longrightarrow> m = large_general"
    by (simp add: is_largest_in_def general_of_def large_general_def)
  from get_model_for_tier_fallback [of reg_small_large MEDIUM True] ne
  obtain m1 where m1: "get_model_for_tier reg_small_large MEDIUM True = Some m1" by auto
  from get_model_for_tier_fallback [of reg_small_large MEDIUM True m1] m1
  have "is_largest_in m1 [large_general]" unfolding sc nc by simp
  with m1 only have t1: "get_model_for_tier reg_small_large MEDIUM True = Some large_general"
    by simp
  from get_model_for_tier_fallback [of reg_small_large MEDIUM False] ne
  obtain m2 where m2: "get_model_for_tier reg_small_large MEDIUM False = Some m2" by auto
  from get_model_for_tier_fallback [of reg_small_large MEDIUM False m2] m2 ng
  have "is_largest_in m2 (general_of [large_general])" unfolding sc by simp
  with m2 only_g have t2: "get_model_for_tier reg_small_large MEDIUM False = Some large_general"
    by simp
  from h r c sc t1 t2 show ?thesis by blast
qed

text \<open>
  Claim C2, amended. On a non-empty registry and without coder preference: if some
  candidate is not a coder model, the result is a largest non-coder candidate; if every
  candidate is a coder model, the result is a largest non-coder model of the first tier,
  in enumeration order SMALL, MEDIUM, LARGE, that holds a non-coder model (the search stops
  at that tier and does not look at later tiers); and if no model of the registry is a
  non-coder, the result is a largest candidate.
\<close>

theorem get_model_for_tier_general:
  assumes "models reg \<noteq> []"
  shows "(general_of (candidates reg t) \<noteq> [] \<longrightarrow>
            (\<exists>m. get_model_for_tier reg t False = Some m
                \<and> is_largest_in m (general_of (candidates reg t))))
       \<and> (general_of (candidates reg t) = [] \<longrightarrow>
            (case find (\<lambda>ft. general_of (by_tier reg ft) \<noteq> []) all_tiers of
               Some ft \<Rightarrow>
                 (\<exists>m. get_model_for_tier reg t False = Some m
                     \<and> is_largest_in m (general_of (by_tier reg ft)))
             | None \<Rightarrow>
                 list_all is_coder (model_values reg)
                 \<and> (\<exists>m. get_model_for_tier reg t False = Some m
                       \<and> is_largest_in m (candidates reg t))))
       \<and> (list_all is_coder (model_values reg) \<longrightarrow>
            (\<exists>m. get_model_for_tier reg t False = Some m
                \<and> is_largest_in m (candidates reg t)))"
proof -
  from assms obtain c cs where cands: "candidates reg t = c # cs"
    using candidates_Nil_iff [of reg t] by (cases "candidates reg t") auto
  have whole: "is_largest_in (max_from effective_params c cs) (candidates reg t)"
    unfolding cands by (rule max_from_largest)
  have one: "general_of (candidates reg t) \<noteq> [] \<longrightarrow>
            (\<exists>m. get_model_for_tier reg t False = Some m
                \<and> is_largest_in m (general_of (candidates reg t)))"
  proof
    assume "general_of (candidates reg t) \<noteq> []"
    then obtain g gs where g: "general_of (candidates reg t) = g # gs"
      by (cases "general_of (candidates reg t)") auto
    have "is_largest_in (max_from effective_params g gs) (general_of (candidates reg t))"
      unfolding g by (rule max_from_largest)
    with get_model_general [OF g] show "\<exists>m. get_model_for_tier reg t False = Some m
                \<and> is_largest_in m (general_of (candidates reg t))" by blast
  qed
  have two: "general_of (candidates reg t) = [] \<longrightarrow>
            (case find (\<lambda>ft. general_of (by_tier reg ft) \<noteq> []) all_tiers of
               Some ft \<Rightarrow>
                 (\<exists>m. get_model_for_tier reg t False = Some m
                     \<and> is_largest_in m (general_of (by_tier reg ft)))
             | None \<Rightarrow>
                 list_all is_coder (model_values reg)
                 \<and> (\<exists>m. get_model_for_tier reg t False = Some m
                       \<and> is_largest_in m (candidates reg t)))"
  proof
    assume ng: "general_of (candidates reg t) = []"
    note get = get_model_no_general [OF cands ng]
    note sg = search_general_first [OF ng]
    show "case find (\<lambda>ft. general_of (by_tier reg ft) \<noteq> []) all_tiers of
               Some ft \<Rightarrow>
                 (\<exists>m. get_model_for_tier reg t False = Some m
                     \<and> is_largest_in m (general_of (by_tier reg ft)))
             | None \<Rightarrow>
                 list_all is_coder (model_values reg)
                 \<and> (\<exists>m. get_model_for_tier reg t False = Some m
                       \<and> is_largest_in m (candidates reg t))"
    proof (cases "find (\<lambda>ft. general_of (by_tier reg ft) \<noteq> []) all_tiers")
      case None
      then have "search_general reg t all_tiers = None" using sg by simp
      with get have "get_model_for_tier reg t False = Some (max_from effective_params c cs)"
        by simp
      with whole find_all_tiers_None [OF None] None show ?thesis by simp
    next
      case (Some ft)
      then have "general_of (by_tier reg ft) \<noteq> []" by (auto simp: find_Some_iff)
      then obtain g gs where g: "general_of (by_tier reg ft) = g # gs"
        by (cases "general_of (by_tier reg ft)") auto
      have "search_general reg t all_tiers = Some (max_from effective_params g gs)"
        using sg Some g by simp
      with get have "get_model_for_tier reg t False = Some (max_from effective_params g gs)"
        by simp
      moreover have "is_largest_in (max_from effective_params g gs) (general_of (by_tier reg ft))"
        unfolding g by (rule max_from_largest)
      ultimately show ?thesis using Some by simp
    qed
  qed
  have three: "list_all is_coder (model_values reg) \<longrightarrow>
            (\<exists>m. get_model_for_tier reg t False = Some m
                \<and> is_largest_in m (candidates reg t))"
  proof
    assume ac: "list_all is_coder (model_values reg)"
    have ng: "general_of (candidates reg t) = []"
      using ac candidates_subset [of _ reg t]
      by (auto simp: general_of_def filter_empty_conv list_all_iff)
    have "find (\<lambda>ft. general_of (by_tier reg ft) \<noteq> []) all_tiers = None"
      using general_of_all_coder [OF ac] by (simp add: find_None_iff)
    with two ng show "\<exists>m. get_model_for_tier reg t False = Some m
                \<and> is_largest_in m (candidates reg t)" by simp
  qed
  from one two three show ?thesis by blast
qed

theorem get_model_for_tier_general_witness:
  "models reg_mixed \<noteq> []
   \<and> general_of (candidates reg_mixed SMALL) \<noteq> []
   \<and> (\<exists>m. get_model_for_tier reg_mixed SMALL False = Some m
          \<and> is_largest_in m (general_of (candidates reg_mixed SMALL)))
   \<and> general_of (candidates reg_mixed MEDIUM) = []
   \<and> find (\<lambda>ft. general_of (by_tier reg_mixed ft) \<noteq> []) all_tiers = Some SMALL
   \<and> (\<exists>m. get_model_for_tier reg_mixed MEDIUM False = Some m
          \<and> is_largest_in m (general_of (by_tier reg_mixed SMALL)))
   \<and> models reg_coders \<noteq> []
   \<and> list_all is_coder (model_values reg_coders)
   \<and> (\<exists>m. get_model_for_tier reg_coders LARGE False = Some m
          \<and> is_largest_in m (candidates reg_coders LARGE))"
proof -
  have h0: "models reg_mixed \<noteq> []" by (simp add: reg_mixed_def)
  have h1: "general_of (candidates reg_mixed SMALL) \<noteq> []"
    by (simp add: reg_mixed_def small_general_def medium_coder_def large_general_def
          model_values_def by_tier_def candidates_def general_of_def)
  have h2: "general_of (candidates reg_mixed MEDIUM) = []"
    by (simp add: reg_mixed_def small_general_def medium_coder_def large_general_def
          model_values_def by_tier_def candidates_def general_of_def)
  have h3: "find (\<lambda>ft. general_of (by_tier reg_mixed ft) \<noteq> []) all_tiers = Some SMALL"
    by (simp add: reg_mixed_def small_general_def medium_coder_def large_general_def
          model_values_def by_tier_def general_of_def all_tiers_def)
  have h4: "models reg_coders \<noteq> []" by (simp add: reg_coders_def)
  have h5: "list_all is_coder (model_values reg_coders)"
    by (simp add: reg_coders_def medium_coder_def model_values_def)
  from get_model_for_tier_general [OF h0, of SMALL] h1
  have r1: "\<exists>m. get_model_for_tier reg_mixed SMALL False = Some m
          \<and> is_largest_in m (general_of (candidates reg_mixed SMALL))"
    by blast
  from get_model_for_tier_general [OF h0, of MEDIUM] h2
  have "case find (\<lambda>ft. general_of (by_tier reg_mixed ft) \<noteq> []) all_tiers of
               Some ft \<Rightarrow>
                 (\<exists>m. get_model_for_tier reg_mixed MEDIUM False = Some m
                     \<and> is_largest_in m (general_of (by_tier reg_mixed ft)))
             | None \<Rightarrow>
                 list_all is_coder (model_values reg_mixed)
                 \<and> (\<exists>m. get_model_for_tier reg_mixed MEDIUM False = Some m
                       \<and> is_largest_in m (candidates reg_mixed MEDIUM))"
    by blast
  then have r2: "\<exists>m. get_model_for_tier reg_mixed MEDIUM False = Some m
          \<and> is_largest_in m (general_of (by_tier reg_mixed SMALL))"
    unfolding h3 by simp
  from get_model_for_tier_general [OF h4, of LARGE] h5
  have r3: "\<exists>m. get_model_for_tier reg_coders LARGE False = Some m
          \<and> is_largest_in m (candidates reg_coders LARGE)"
    by blast
  from h0 h1 h2 h3 h4 h5 r1 r2 r3 show ?thesis by blast
qed

text \<open>
  Claim C2 as stated fails: requesting MEDIUM where the only MEDIUM model is a coder, a
  4B non-coder is in SMALL and a 70B non-coder is in LARGE, the result is the 4B model,
  which is not the largest non-coder among the other tiers.
\<close>

theorem get_model_for_tier_general_counterexample:
  "candidates reg_mixed MEDIUM = [medium_coder]
   \<and> is_coder medium_coder
   \<and> get_model_for_tier reg_mixed MEDIUM False = Some small_general
   \<and> large_general \<in> set (by_tier reg_mixed LARGE)
   \<and> \<not> is_coder large_general
   \<and> effective_params small_general < effective_params large_general"
  by (simp add: reg_mixed_def small_general_def medium_coder_def
        large_general_def model_values_def by_tier_def get_model_for_tier_def
        candidates_def all_tiers_def effective_params_def py_or_def)

section \<open>Claims about parameter extraction and tiering\<close>

lemma classify_tier_mono:
  "e1 \<le> e2 \<Longrightarrow> tier_value (classify_tier cfg e1) \<le> tier_value (classify_tier cfg e2)"
  by (simp add: classify_tier_def)

lemma build_tier_known:
  assumes "build_model_info cfg mid = Inr (Some m)" and "params_known m"
  shows "tier m = classify_tier cfg (effective_params m)"
  using assms
  by (auto simp: build_model_info_def params_known_def effective_params_def Let_def py_or_def
           split: if_splits sum.splits option.splits prod.splits)

lemma build_tier_unknown:
  assumes "build_model_info cfg mid = Inr (Some m)" and "\<not> params_known m"
  shows "tier m = MEDIUM \<and> effective_params m = 0"
  using assms
  by (auto simp: build_model_info_def params_known_def effective_params_def Let_def py_or_def
           split: if_splits sum.splits option.splits prod.splits)

text \<open>
  When \<^verbatim>\<open>_extract_params\<close> raises, and what it returns when the re-selection runs:
  it raises exactly when an active value other than zero was found, there is more than
  one total candidate, and every candidate equals the active value; otherwise the
  re-selected total is the largest candidate different from the active value.
\<close>

lemma py_max_Inl_iff: "(\<exists>e. py_max vs = Inl e) \<longleftrightarrow> vs = []"
  by (cases vs) simp_all

lemma py_max_Inr:
  assumes "py_max vs = Inr v"
  shows "v \<in> set vs \<and> (\<forall>w\<in>set vs. w \<le> v)"
proof (cases vs)
  case Nil
  with assms show ?thesis by simp
next
  case (Cons x xs)
  with assms have v: "v = max_from (\<lambda>v. v) x xs" by simp
  have "v \<in> set (x # xs)" unfolding v by (rule max_from_mem)
  moreover have "\<forall>w\<in>set (x # xs). w \<le> v"
    unfolding v using max_from_ge [of _ x xs "\<lambda>v. v"] by blast
  ultimately show ?thesis using Cons by simp
qed

lemma extract_params_active:
  assumes "extract_params mid = Inr (tp, ap)"
  shows "ap = map_option py_float (moe_search mid)"
  using assms
  by (auto simp: extract_params_def Let_def split: if_splits sum.splits)

lemma extract_params_raises_iff:
  "(\<exists>e. extract_params mid = Inl e) \<longleftrightarrow>
     truthy (map_option py_float (moe_search mid))
     \<and> length (param_findall mid) > 1
     \<and> (\<forall>p\<in>set (param_findall mid). Some (py_float p) = map_option py_float (moe_search mid))"
proof -
  let ?fs = "map py_float (param_findall mid)"
  let ?ap = "map_option py_float (moe_search mid)"
  show ?thesis
  proof (cases "param_findall mid = []")
    case True
    then show ?thesis by (simp add: extract_params_def)
  next
    case False
    then obtain tp where tp: "py_max ?fs = Inr tp"
      by (cases "param_findall mid") auto
    note mx = py_max_Inr [OF tp]
    show ?thesis
    proof (cases "truthy ?ap \<and> Some tp = ?ap \<and> length (param_findall mid) > 1")
      case trig: True
      have "(\<exists>e. extract_params mid = Inl e)
              \<longleftrightarrow> filter (\<lambda>v. Some v \<noteq> ?ap) ?fs = []"
        using False tp trig py_max_Inl_iff [of "filter (\<lambda>v. Some v \<noteq> ?ap) ?fs"]
        by (auto simp: extract_params_def Let_def split: sum.splits)
      also have "\<dots> \<longleftrightarrow> (\<forall>p\<in>set (param_findall mid). Some (py_float p) = ?ap)"
        by (auto simp: filter_empty_conv)
      finally show ?thesis using trig by simp
    next
      case notrig: False
      have noraise: "\<not> (\<exists>e. extract_params mid = Inl e)"
        using False tp notrig by (auto simp: extract_params_def Let_def)
      have "\<not> (truthy ?ap \<and> length (param_findall mid) > 1
              \<and> (\<forall>p\<in>set (param_findall mid). Some (py_float p) = ?ap))"
      proof
        assume a: "truthy ?ap \<and> length (param_findall mid) > 1
              \<and> (\<forall>p\<in>set (param_findall mid). Some (py_float p) = ?ap)"
        from mx have "tp \<in> set ?fs" by simp
        with a have "Some tp = ?ap" by auto
        with a notrig show False by simp
      qed
      with noraise show ?thesis by simp
    qed
  qed
qed

lemma extract_params_reselects:
  assumes ret: "extract_params mid = Inr (tp, ap)"
    and mx: "py_max (map py_float (param_findall mid)) = Inr v"
    and trig: "truthy ap" "Some v = ap" "length (param_findall mid) > 1"
  shows "\<exists>v'. tp = Some v' \<and> v' \<in> set (map py_float (param_findall mid)) \<and> Some v' \<noteq> ap
           \<and> (\<forall>w\<in>set (map py_float (param_findall mid)). Some w \<noteq> ap \<longrightarrow> w \<le> v')"
proof -
  let ?fs = "map py_float (param_findall mid)"
  have ap: "ap = map_option py_float (moe_search mid)" using ret by (rule extract_params_active)
  from trig(3) have ne: "param_findall mid \<noteq> []" by auto
  from ret ne mx trig ap obtain v' where
    v': "py_max (filter (\<lambda>w. Some w \<noteq> ap) ?fs) = Inr v'" and tp: "tp = Some v'"
    by (auto simp: extract_params_def Let_def split: sum.splits if_splits)
  from py_max_Inr [OF v'] tp show ?thesis by auto
qed

text \<open>
  Claim C5: \<^verbatim>\<open>_extract_params\<close> is total and never raises. The code violates it. For
  the identifier \<^verbatim>\<open>moe-3b-a3b\<close> both total candidates are 3 and the active value is 3,
  so the re-selection \<^verbatim>\<open>max(float(p) for p in all_params if float(p) != active_params)\<close>
  runs over an empty sequence and raises \<^verbatim>\<open>ValueError\<close>. Whenever the function does
  return, the re-selected total is as the claim says (\<open>extract_params_reselects\<close>).
\<close>

theorem extract_params_raises:
  "param_findall ''moe-3b-a3b'' = [''3'', ''3'']
   \<and> moe_search ''moe-3b-a3b'' = Some ''3''
   \<and> extract_params ''moe-3b-a3b'' = Inl ValueError"
  by (simp add: extract_params_def regex_defs)

text \<open>
  Claim C7, amended. For any tier boundaries, the default ones included, the tier given by
  \<^verbatim>\<open>_build_model_info\<close> is monotonic in \<^verbatim>\<open>effective_params\<close> among the models for which
  a parameter count was extracted; a model without one is MEDIUM and has
  \<^verbatim>\<open>effective_params\<close> 0. With the default boundaries (8, 27): 4 is SMALL, 27 is MEDIUM,
  32 is LARGE.
\<close>

theorem tier_monotone_known_params:
  "(build_model_info cfg id1 = Inr (Some m1) \<and> build_model_info cfg id2 = Inr (Some m2)
      \<and> params_known m1 \<and> params_known m2
      \<and> effective_params m1 \<le> effective_params m2
      \<longrightarrow> tier_value (tier m1) \<le> tier_value (tier m2))
   \<and> (build_model_info cfg id1 = Inr (Some m1) \<and> \<not> params_known m1
      \<longrightarrow> tier m1 = MEDIUM \<and> effective_params m1 = 0)
   \<and> classify_tier default_config 4 = SMALL
   \<and> classify_tier default_config 27 = MEDIUM
   \<and> classify_tier default_config 32 = LARGE"
proof (intro conjI impI)
  assume a: "build_model_info cfg id1 = Inr (Some m1) \<and> build_model_info cfg id2 = Inr (Some m2)
      \<and> params_known m1 \<and> params_known m2
      \<and> effective_params m1 \<le> effective_params m2"
  then have "tier m1 = classify_tier cfg (effective_params m1)"
    and "tier m2 = classify_tier cfg (effective_params m2)"
    using build_tier_known [of cfg id1 m1] build_tier_known [of cfg id2 m2] by blast+
  with a show "tier_value (tier m1) \<le> tier_value (tier m2)"
    by (simp add: classify_tier_mono)
next
  assume a: "build_model_info cfg id1 = Inr (Some m1) \<and> \<not> params_known m1"
  then show "tier m1 = MEDIUM" and "effective_params m1 = 0"
    using build_tier_unknown [of cfg id1 m1] by simp_all
qed (simp_all add: classify_tier_def default_config_def)

theorem tier_monotone_known_params_witness:
  "build_model_info default_config ''gemma-3-4b'' = Inr (Some small_general)
   \<and> build_model_info default_config ''qwen2.5-coder-32b'' = Inr (Some large_coder)
   \<and> params_known small_general \<and> params_known large_coder
   \<and> effective_params small_general \<le> effective_params large_coder
   \<and> tier_value (tier small_general) \<le> tier_value (tier large_coder)
   \<and> build_model_info default_config ''gpt-4o'' = Inr (Some unknown_model)
   \<and> \<not> params_known unknown_model
   \<and> tier unknown_model = MEDIUM \<and> effective_params unknown_model = 0"
proof -
  have h: "params_known small_general \<and> params_known large_coder
      \<and> effective_params small_general \<le> effective_params large_coder"
    by (simp add: params_known_def small_general_def large_coder_def effective_params_def
          py_or_def)
  have u: "\<not> params_known unknown_model"
    by (simp add: params_known_def unknown_model_def py_or_def)
  from tier_monotone_known_params
         [of default_config "''gemma-3-4b''" small_general "''qwen2.5-coder-32b''" large_coder]
       build_gemma build_coder h
  have r1: "tier_value (tier small_general) \<le> tier_value (tier large_coder)" by blast
  from tier_monotone_known_params
         [of default_config "''gpt-4o''" unknown_model "''gpt-4o''" unknown_model]
       build_gpt4o u
  have r2: "tier unknown_model = MEDIUM \<and> effective_params unknown_model = 0" by blast
  from build_gemma build_coder build_gpt4o h u r1 r2 show ?thesis by blast
qed

text \<open>
  Claim C7 as stated fails: \<^verbatim>\<open>gpt-4o\<close> carries no parameter count, so it is built
  with \<^verbatim>\<open>effective_params\<close> 0 and tier MEDIUM, while \<^verbatim>\<open>gemma-3-4b\<close> has
  \<^verbatim>\<open>effective_params\<close> 4 and tier SMALL.
\<close>

theorem tier_monotone_counterexample:
  "build_model_info default_config ''gpt-4o'' = Inr (Some unknown_model)
   \<and> build_model_info default_config ''gemma-3-4b'' = Inr (Some small_general)
   \<and> effective_params unknown_model \<le> effective_params small_general
   \<and> \<not> tier_value (tier unknown_model) \<le> tier_value (tier small_general)"
  using build_gpt4o build_gemma
  by (simp add: unknown_model_def small_general_def effective_params_def py_or_def)

section \<open>Claims about refresh\_models\<close>

lemma refresh_models_fail:
  assumes "refresh_due force now s" and "refresh_attempt fetch loaded = Inl e"
  shows "fst (refresh_models force now fetch loaded s)
           = (if models (registry s) = [] then Inl e else Inr (registry s))"
    and "registry (snd (refresh_models force now fetch loaded s)) = registry s"
    and "retired (snd (refresh_models force now fetch loaded s)) = retired s"
  using assms
  by (auto simp: refresh_models_def refresh_due_def refresh_attempt_def refresh_failed_def Let_def
           split: fetch_result.splits sum.splits)

lemma refresh_models_ok:
  assumes "refresh_due force now s" and "refresh_attempt fetch loaded = Inr new_models"
  shows "fst (refresh_models force now fetch loaded s)
           = Inr \<lparr>models = new_models, last_refresh = now\<rparr>"
    and "registry (snd (refresh_models force now fetch loaded s))
           = \<lparr>models = new_models, last_refresh = now\<rparr>"
    and "retired (snd (refresh_models force now fetch loaded s)) = retired s @ [registry s]"
  using assms
  by (auto simp: refresh_models_def refresh_due_def refresh_attempt_def refresh_failed_def Let_def
           split: fetch_result.splits sum.splits)

text \<open>
  Claim C4. When the refresh is due and the request or the processing of the listing
  raises: if the current registry holds a model, \<^verbatim>\<open>refresh_models\<close> returns it and leaves
  the registry as it was; if it holds none, the exception propagates. When the listing
  is processed without an exception, the global is rebound to a registry built from the
  listing and the loaded configuration alone, with the time of the call, and the old
  registry object is retired unchanged.
\<close>

theorem refresh_models_stale_or_replaced:
  assumes "refresh_due force now s"
  shows "(refresh_attempt fetch loaded = Inl e \<and> models (registry s) \<noteq> [] \<longrightarrow>
            fst (refresh_models force now fetch loaded s) = Inr (registry s)
            \<and> registry (snd (refresh_models force now fetch loaded s)) = registry s
            \<and> retired (snd (refresh_models force now fetch loaded s)) = retired s)
       \<and> (refresh_attempt fetch loaded = Inl e \<and> models (registry s) = [] \<longrightarrow>
            fst (refresh_models force now fetch loaded s) = Inl e)
       \<and> (refresh_attempt fetch loaded = Inr new_models \<longrightarrow>
            fst (refresh_models force now fetch loaded s)
              = Inr \<lparr>models = new_models, last_refresh = now\<rparr>
            \<and> registry (snd (refresh_models force now fetch loaded s))
              = \<lparr>models = new_models, last_refresh = now\<rparr>
            \<and> retired (snd (refresh_models force now fetch loaded s))
              = retired s @ [registry s])"
  using refresh_models_fail [OF assms, of fetch loaded e]
    refresh_models_ok [OF assms, of fetch loaded new_models]
  by simp

lemma default_enabled: "is_model_enabled default_config mid"
  by (simp add: is_model_enabled_def default_config_def)

lemma default_override: "apply_tier_override default_config mid info = info"
  by (simp add: apply_tier_override_def get_tier_override_def default_config_def)

lemma good_listing_models:
  "refresh_attempt (FetchReturns good_listing) default_config
     = Inr [(''gemma-3-4b'', small_general), (''qwen2.5-coder-32b'', large_coder)]"
  by (simp add: refresh_attempt_def build_models_def good_listing_def
        build_gemma build_coder build_nomic default_enabled default_override)

lemma bad_listing_fails:
  "refresh_attempt (FetchReturns bad_listing) default_config = Inl KeyError"
  by (simp add: refresh_attempt_def build_models_def bad_listing_def
        build_gemma default_enabled default_override)

lemma raising_id_fails:
  "refresh_attempt (FetchReturns (JObj [(''data'', JArr [JObj [(''id'', JStr ''moe-3b-a3b'')]])]))
     default_config = Inl ValueError"
  by (simp add: refresh_attempt_def build_models_def build_model_info_def extract_params_def
        regex_defs)

theorem refresh_models_stale_or_replaced_witness:
  "refresh_due True 1000 serving_state
   \<and> refresh_attempt (FetchRaises HTTPError) default_config = Inl HTTPError
   \<and> models (registry serving_state) \<noteq> []
   \<and> fst (refresh_models True 1000 (FetchRaises HTTPError) default_config serving_state)
       = Inr (registry serving_state)
   \<and> registry (snd (refresh_models True 1000 (FetchRaises HTTPError) default_config
                      serving_state)) = registry serving_state
   \<and> refresh_due True 1000 start_state
   \<and> refresh_attempt (FetchReturns bad_listing) default_config = Inl KeyError
   \<and> models (registry start_state) = []
   \<and> fst (refresh_models True 1000 (FetchReturns bad_listing) default_config start_state)
       = Inl KeyError
   \<and> refresh_attempt (FetchReturns good_listing) default_config
       = Inr [(''gemma-3-4b'', small_general), (''qwen2.5-coder-32b'', large_coder)]
   \<and> registry (snd (refresh_models True 1000 (FetchReturns good_listing) default_config
                      serving_state))
       = \<lparr>models = [(''gemma-3-4b'', small_general), (''qwen2.5-coder-32b'', large_coder)],
          last_refresh = 1000\<rparr>
   \<and> retired (snd (refresh_models True 1000 (FetchReturns good_listing) default_config
                     serving_state)) = [reg_medium_only]"
proof -
  have d1: "refresh_due True 1000 serving_state" and d2: "refresh_due True 1000 start_state"
    by (simp_all add: refresh_due_def)
  have a1: "refresh_attempt (FetchRaises HTTPError) default_config = Inl HTTPError"
    by (simp add: refresh_attempt_def)
  have m1: "models (registry serving_state) \<noteq> []"
    by (simp add: serving_state_def reg_medium_only_def)
  have m2: "models (registry start_state) = []"
    by (simp add: start_state_def)
  have old: "retired serving_state = []" "registry serving_state = reg_medium_only"
    by (simp_all add: serving_state_def)
  from refresh_models_stale_or_replaced
         [OF d1, of "FetchRaises HTTPError" default_config HTTPError] a1 m1
  have r1: "fst (refresh_models True 1000 (FetchRaises HTTPError) default_config serving_state)
       = Inr (registry serving_state)
     \<and> registry (snd (refresh_models True 1000 (FetchRaises HTTPError) default_config
                      serving_state)) = registry serving_state"
    by blast
  from refresh_models_stale_or_replaced
         [OF d2, of "FetchReturns bad_listing" default_config KeyError] bad_listing_fails m2
  have r2: "fst (refresh_models True 1000 (FetchReturns bad_listing) default_config start_state)
       = Inl KeyError"
    by blast
  from refresh_models_stale_or_replaced
         [OF d1, of "FetchReturns good_listing" default_config _
            "[(''gemma-3-4b'', small_general), (''qwen2.5-coder-32b'', large_coder)]"]
       good_listing_models
  have r3: "registry (snd (refresh_models True 1000 (FetchReturns good_listing) default_config
                      serving_state))
       = \<lparr>models = [(''gemma-3-4b'', small_general), (''qwen2.5-coder-32b'', large_coder)],
          last_refresh = 1000\<rparr>
     \<and> retired (snd (refresh_models True 1000 (FetchReturns good_listing) default_config
                     serving_state)) = retired serving_state @ [registry serving_state]"
    by blast
  from d1 d2 a1 m1 m2 r1 r2 r3 bad_listing_fails good_listing_models show ?thesis
    unfolding old by simp
qed

section \<open>Claims about score\_request\<close>

lemma round_half_even_bounds:
  assumes "0 \<le> y" and "y \<le> of_int n"
  shows "0 \<le> round_half_even y \<and> round_half_even y \<le> n"
proof -
  let ?f = "\<lfloor>y\<rfloor>"
  have f0: "0 \<le> ?f" using assms(1) by simp
  have fn: "?f \<le> n" using assms(2) by (simp add: floor_le_iff)
  have lower: "0 \<le> round_half_even y"
    using f0 by (simp add: round_half_even_def Let_def)
  have upper: "round_half_even y \<le> n"
  proof (cases "?f = n")
    case True
    then have "of_int n \<le> y" by (metis of_int_floor_le)
    with assms(2) have "y = of_int n" by simp
    then show ?thesis by (simp add: round_half_even_def Let_def)
  next
    case False
    with fn have "?f + 1 \<le> n" by simp
    with fn show ?thesis by (simp add: round_half_even_def Let_def)
  qed
  from lower upper show ?thesis by simp
qed

lemma round3_bounds:
  assumes "0 \<le> x" and "x \<le> 1"
  shows "0 \<le> round3 x \<and> round3 x \<le> 1"
proof -
  have "0 \<le> x * 1000" and "x * 1000 \<le> of_int 1000" using assms by simp_all
  then have "0 \<le> round_half_even (x * 1000) \<and> round_half_even (x * 1000) \<le> 1000"
    by (rule round_half_even_bounds)
  then show ?thesis by (simp add: round3_def)
qed

lemma round3_fix:
  "round3 (of_int k / 1000) = of_int k / 1000"
  by (simp add: round3_def round_half_even_def)

lemma keyword_signal_bounds:
  "0 \<le> fst (complex_signal n) \<and> fst (complex_signal n) \<le> 7 / 10"
  "0 \<le> fst (moderate_signal n) \<and> fst (moderate_signal n) \<le> 1 / 5"
  by (simp_all add: complex_signal_def moderate_signal_def min_def)

lemma signal_bounds:
  "0 \<le> fst (token_signal n) \<and> fst (token_signal n) \<le> 1 / 2"
  "0 \<le> fst (turn_signal n) \<and> fst (turn_signal n) \<le> 3 / 20"
  "0 \<le> fst (tool_signal tools) \<and> fst (tool_signal tools) \<le> 1 / 5"
  "0 \<le> fst (system_signal messages) \<and> fst (system_signal messages) \<le> 3 / 20"
  "0 \<le> fst (code_signal full_text) \<and> fst (code_signal full_text) \<le> 3 / 20"
  "0 \<le> fst (image_signal full_text) \<and> fst (image_signal full_text) \<le> 1 / 10"
  "- (3 / 20) \<le> fst (simple_signal n nc nm) \<and> fst (simple_signal n nc nm) \<le> 0"
  by (simp_all add: token_signal_def turn_signal_def tool_signal_def system_signal_def
        code_signal_def image_signal_def simple_signal_def Let_def
        split: option.splits list.splits)

text \<open>
  Claim C8. The score of \<^verbatim>\<open>score_request\<close> lies in [0, 1] for all messages, tools,
  keyword matchers and thresholds: it is the sum of the signals' contributions, clamped
  to [0, 1] and then rounded to three decimals. Each signal contributes a bounded amount,
  the simple-keyword signal a deduction of at most 0.15.
\<close>

theorem score_request_in_unit_interval:
  "0 \<le> score (score_request mt cfg messages tools)
   \<and> score (score_request mt cfg messages tools) \<le> 1
   \<and> score (score_request mt cfg messages tools)
       = round3 (max 0 (min 1 (raw_score mt messages tools)))
   \<and> (0 \<le> fst (token_signal n) \<and> fst (token_signal n) \<le> 1 / 2)
   \<and> (0 \<le> fst (turn_signal n) \<and> fst (turn_signal n) \<le> 3 / 20)
   \<and> (0 \<le> fst (tool_signal tools) \<and> fst (tool_signal tools) \<le> 1 / 5)
   \<and> (0 \<le> fst (system_signal messages) \<and> fst (system_signal messages) \<le> 3 / 20)
   \<and> (0 \<le> fst (code_signal full_text) \<and> fst (code_signal full_text) \<le> 3 / 20)
   \<and> (0 \<le> fst (image_signal full_text) \<and> fst (image_signal full_text) \<le> 1 / 10)
   \<and> (0 \<le> fst (complex_signal n) \<and> fst (complex_signal n) \<le> 7 / 10)
   \<and> (0 \<le> fst (moderate_signal n) \<and> fst (moderate_signal n) \<le> 1 / 5)
   \<and> (- (3 / 20) \<le> fst (simple_signal n nc nm) \<and> fst (simple_signal n nc nm) \<le> 0)"
proof -
  let ?c = "max 0 (min 1 (raw_score mt messages tools))"
  have eq: "score (score_request mt cfg messages tools) = round3 ?c"
    by (simp add: score_request_def Let_def)
  have "0 \<le> ?c" and "?c \<le> 1" by simp_all
  then have "0 \<le> round3 ?c \<and> round3 ?c \<le> 1" by (rule round3_bounds)
  then have "0 \<le> score (score_request mt cfg messages tools)
      \<and> score (score_request mt cfg messages tools) \<le> 1"
    unfolding eq .
  with eq signal_bounds(1) [of n] signal_bounds(2) [of n] signal_bounds(3) [of tools]
    signal_bounds(4) [of messages] signal_bounds(5) [of full_text] signal_bounds(6) [of full_text]
    signal_bounds(7) [of n nc nm] keyword_signal_bounds(1) [of n] keyword_signal_bounds(2) [of n]
  show ?thesis by blast
qed

lemmas score_defs = score_request_def raw_score_def signals_def simple_messages_def
  extract_text_def estimate_tokens_def last_user_text_def token_signal_def turn_signal_def
  tool_signal_def system_signal_def code_signal_def image_signal_def complex_signal_def
  moderate_signal_def simple_signal_def Let_def count_code_blocks_def

lemma simple_score:
  "score_request simple_matches default_config simple_messages None
     = \<lparr>score = 0, reasons = [VeryShort 3, SimpleKeywords], confident = True\<rparr>"
  by (simp add: score_defs simple_matches_def default_config_def round3_def
        round_half_even_def)

theorem score_request_in_unit_interval_witness:
  "raw_score simple_matches simple_messages None = - (3 / 20)
   \<and> score (score_request simple_matches default_config simple_messages None) = 0
   \<and> raw_score heavy_matches simple_messages four_tools = 11 / 10
   \<and> score (score_request heavy_matches default_config simple_messages four_tools) = 1"
proof -
  have r1: "raw_score simple_matches simple_messages None = - (3 / 20)"
    by (simp add: score_defs simple_matches_def)
  have r2: "raw_score heavy_matches simple_messages four_tools = 11 / 10"
    by (simp add: score_defs heavy_matches_def four_tools_def)
  note inst1 = score_request_in_unit_interval
                 [of simple_matches default_config simple_messages None]
  note inst2 = score_request_in_unit_interval
                 [of heavy_matches default_config simple_messages four_tools]
  from inst1 have "score (score_request simple_matches default_config simple_messages None)
      = round3 (max 0 (min 1 (raw_score simple_matches simple_messages None)))" by blast
  then have s1: "score (score_request simple_matches default_config simple_messages None) = 0"
    unfolding r1 using round3_fix [of 0] by simp
  from inst2 have "score (score_request heavy_matches default_config simple_messages four_tools)
      = round3 (max 0 (min 1 (raw_score heavy_matches simple_messages four_tools)))" by blast
  then have s2: "score (score_request heavy_matches default_config simple_messages four_tools) = 1"
    unfolding r2 using round3_fix [of 1000] by simp
  from r1 r2 s1 s2 show ?thesis by blast
qed


section \<open>Claims about classify\_complexity\<close>

lemma those_None_iff: "those xs = None \<longleftrightarrow> None \<in> set xs"
  by (induction xs) (auto split: option.splits)

lemma block_condensed_None: "None \<in> set (block_condensed b) \<longleftrightarrow> \<not> block_ok b"
  by (cases b rule: block_ok.cases) simp_all

lemma content_condensed_raises_iff:
  "(\<exists>e. content_condensed c = Inl e) \<longleftrightarrow> \<not> content_ok c"
proof (cases c)
  case None
  then show ?thesis by simp
next
  case (Some rc)
  show ?thesis
  proof (cases rc)
    case (RawParts bs)
    have "those (concat (map block_condensed bs)) = None \<longleftrightarrow> \<not> list_all block_ok bs"
      by (auto simp: those_None_iff list_all_iff block_condensed_None)
    with Some RawParts show ?thesis
      by (auto simp: join_items_def split: option.splits)
  qed (simp_all add: Some)
qed

lemma content_condensed_error: "content_condensed c = Inl e \<Longrightarrow> e = TypeError"
  by (cases c rule: content_condensed.cases) (auto simp: join_items_def split: option.splits)

lemma message_line_raises_iff:
  "(\<exists>e. message_line m = Inl e) \<longleftrightarrow> \<not> content_ok (raw_content m)"
  using content_condensed_raises_iff [of "raw_content m"]
  by (auto simp: message_line_def bind_err_def split: sum.splits)

lemma message_line_error: "message_line m = Inl e \<Longrightarrow> e = TypeError"
  by (auto simp: message_line_def bind_err_def split: sum.splits dest: content_condensed_error)

lemma condense_lines_raises_iff:
  "(\<exists>e. condense_lines ms = Inl e) \<longleftrightarrow> \<not> text_parts_ok ms"
proof (induction ms)
  case Nil
  show ?case by (simp add: text_parts_ok_def)
next
  case (Cons m ms)
  show ?case
  proof (cases "message_line m")
    case (Inl e)
    then have "\<not> content_ok (raw_content m)" using message_line_raises_iff [of m] by auto
    with Inl show ?thesis by (simp add: bind_err_def text_parts_ok_def)
  next
    case (Inr l)
    then have ok: "content_ok (raw_content m)" using message_line_raises_iff [of m] by auto
    have "(\<exists>e. condense_lines (m # ms) = Inl e) \<longleftrightarrow> (\<exists>e. condense_lines ms = Inl e)"
      using Inr by (auto simp: bind_err_def split: sum.splits)
    with Cons.IH ok show ?thesis by (simp add: text_parts_ok_def)
  qed
qed

lemma condense_lines_error: "condense_lines ms = Inl e \<Longrightarrow> e = TypeError"
  by (induction ms arbitrary: e)
     (auto simp: bind_err_def split: sum.splits dest: message_line_error)

lemma condense_messages_raises_iff:
  "(\<exists>e. condense_messages ms = Inl e) \<longleftrightarrow> \<not> text_parts_ok ms"
  using condense_lines_raises_iff [of ms]
  by (auto simp: condense_messages_def bind_err_def Let_def split: sum.splits)

lemma condense_messages_error: "condense_messages ms = Inl e \<Longrightarrow> e = TypeError"
  by (auto simp: condense_messages_def bind_err_def Let_def
           split: sum.splits if_splits dest: condense_lines_error)

lemma classify_total:
  assumes "text_parts_ok messages"
  shows "\<exists>t r. classify_complexity env cfg reg messages = Inr (t, r)"
proof (cases "select_classifier_model cfg reg")
  case None
  then show ?thesis by (simp add: classify_complexity_def)
next
  case (Some mdl)
  from assms obtain condensed where c: "condense_messages messages = Inr condensed"
    using condense_messages_raises_iff [of messages]
    by (cases "condense_messages messages") auto
  show ?thesis
  proof (cases "classifier_try env mdl condensed")
    case (Inl e)
    with Some c show ?thesis by (simp add: classify_complexity_def)
  next
    case (Inr res)
    obtain t r where "res = (t, r)" by (cases res)
    with Some c Inr show ?thesis by (simp add: classify_complexity_def)
  qed
qed

lemma classify_failure:
  assumes "select_classifier_model cfg reg = Some mdl"
    and "condense_messages messages = Inr condensed"
    and "classifier_try env mdl condensed = Inl e"
  shows "classify_complexity env cfg reg messages
           = Inr (MEDIUM, JStr ''classifier error, defaulting to medium'')"
  using assms by (simp add: classify_complexity_def)

text \<open>
  An exception reaches the caller exactly when a classifier model is selected and some
  text part carries a text that is not a str; it is the \<^verbatim>\<open>TypeError\<close> of the join.
\<close>

lemma classify_complexity_raises_iff:
  "(\<exists>e. classify_complexity env cfg reg messages = Inl e)
     \<longleftrightarrow> select_classifier_model cfg reg \<noteq> None \<and> \<not> text_parts_ok messages"
proof (cases "select_classifier_model cfg reg")
  case None
  then show ?thesis by (simp add: classify_complexity_def)
next
  case (Some mdl)
  have "(\<exists>e. classify_complexity env cfg reg messages = Inl e)
          \<longleftrightarrow> (\<exists>e. condense_messages messages = Inl e)"
    using Some by (auto simp: classify_complexity_def split: sum.splits)
  with Some show ?thesis by (simp add: condense_messages_raises_iff)
qed

lemma classify_complexity_error:
  "classify_complexity env cfg reg messages = Inl e \<Longrightarrow> e = TypeError"
  by (auto simp: classify_complexity_def split: option.splits sum.splits
           dest: condense_messages_error)

text \<open>Well-typed messages, handed on as they are, have no such part.\<close>

lemma raw_block_of_ok: "block_ok (raw_block_of b)"
  by (cases b rule: raw_block_of.cases) simp_all

lemma raw_message_of_ok: "text_parts_ok (map raw_message_of ms)"
proof -
  have "content_ok (map_option raw_content_of c)" for c
  proof (cases c)
    case None
    then show ?thesis by simp
  next
    case (Some x)
    then show ?thesis
      by (cases x) (simp_all add: list_all_iff raw_block_of_ok)
  qed
  then show ?thesis by (simp add: text_parts_ok_def raw_message_of_def list_all_iff)
qed

lemma select_none:
  assumes "models reg = []" and "classifier_model cfg = []"
  shows "select_classifier_model cfg reg = None"
  using assms by (simp add: select_classifier_model_def by_tier_def model_values_def)

lemma try_post_raises:
  "backend env mdl t = PostRaises \<Longrightarrow> classifier_try env mdl t = Inl HTTPError"
  by (simp add: classifier_try_def)

lemma try_status_raises:
  "backend env mdl t = PostReturns resp \<Longrightarrow> status_raises resp
     \<Longrightarrow> classifier_try env mdl t = Inl HTTPError"
  by (simp add: classifier_try_def)

lemma try_body_raises:
  "backend env mdl t = PostReturns resp \<Longrightarrow> \<not> status_raises resp \<Longrightarrow> body resp = None
     \<Longrightarrow> classifier_try env mdl t = Inl JSONDecodeError"
  by (simp add: classifier_try_def)

lemma try_chat_reply:
  "backend env mdl t = chat_reply s \<Longrightarrow>
   classifier_try env mdl t =
     (case json_loads env (unfence (py_strip s)) of
        None \<Rightarrow> Inl JSONDecodeError
      | Some parsed \<Rightarrow>
          bind_err (py_getitem parsed ''tier'') (\<lambda>tier_field.
          bind_err (py_int env tier_field) (\<lambda>tier_num.
          bind_err (py_get parsed ''reason'' (JStr [])) (\<lambda>reason.
          bind_err (tier_of_int (max 1 (min 3 tier_num))) (\<lambda>t.
          Inr (t, reason))))))"
  by (simp add: classifier_try_def chat_reply_def bind_err_def)

text \<open>
  Claim C3, amended. For all messages whose text parts carry a str or no text,
  \<^verbatim>\<open>classify_complexity\<close> returns a pair, for every registry, configuration and behaviour
  of the backend and the decoder; no exception reaches the caller. Whenever the try block
  raises, the result is MEDIUM with the reason \<^verbatim>\<open>classifier error, defaulting to
  medium\<close>; it raises when the request fails, the status is an error, the body is not
  JSON, the reply text is not JSON, or the reply has no \<^verbatim>\<open>tier\<close> field. With an empty
  registry and no configured classifier model the result is MEDIUM with the reason
  \<^verbatim>\<open>no classifier model available\<close>, whatever the messages.
\<close>

theorem classify_complexity_recovers:
  "(text_parts_ok messages
      \<longrightarrow> (\<exists>t r. classify_complexity env cfg reg messages = Inr (t, r)))
   \<and> (select_classifier_model cfg reg = Some mdl
        \<and> condense_messages messages = Inr condensed
        \<and> classifier_try env mdl condensed = Inl e
      \<longrightarrow> classify_complexity env cfg reg messages
            = Inr (MEDIUM, JStr ''classifier error, defaulting to medium''))
   \<and> (backend env mdl t = PostRaises \<longrightarrow> classifier_try env mdl t = Inl HTTPError)
   \<and> (backend env mdl t = PostReturns resp \<and> status_raises resp
      \<longrightarrow> classifier_try env mdl t = Inl HTTPError)
   \<and> (backend env mdl t = PostReturns resp \<and> \<not> status_raises resp \<and> body resp = None
      \<longrightarrow> classifier_try env mdl t = Inl JSONDecodeError)
   \<and> (backend env mdl t = chat_reply s \<and> json_loads env (unfence (py_strip s)) = None
      \<longrightarrow> classifier_try env mdl t = Inl JSONDecodeError)
   \<and> (backend env mdl t = chat_reply s
        \<and> json_loads env (unfence (py_strip s)) = Some (JObj kvs)
        \<and> map_of kvs ''tier'' = None
      \<longrightarrow> classifier_try env mdl t = Inl KeyError)
   \<and> (models reg = [] \<and> classifier_model cfg = []
      \<longrightarrow> classify_complexity env cfg reg messages
            = Inr (MEDIUM, JStr ''no classifier model available''))"
proof (intro conjI impI)
  assume "text_parts_ok messages"
  then show "\<exists>t r. classify_complexity env cfg reg messages = Inr (t, r)"
    by (rule classify_total)
next
  assume "select_classifier_model cfg reg = Some mdl
        \<and> condense_messages messages = Inr condensed
        \<and> classifier_try env mdl condensed = Inl e"
  then show "classify_complexity env cfg reg messages
            = Inr (MEDIUM, JStr ''classifier error, defaulting to medium'')"
    using classify_failure by blast
next
  assume "backend env mdl t = PostRaises"
  then show "classifier_try env mdl t = Inl HTTPError" by (rule try_post_raises)
next
  assume "backend env mdl t = PostReturns resp \<and> status_raises resp"
  then show "classifier_try env mdl t = Inl HTTPError" using try_status_raises by blast
next
  assume "backend env mdl t = PostReturns resp \<and> \<not> status_raises resp \<and> body resp = None"
  then show "classifier_try env mdl t = Inl JSONDecodeError" using try_body_raises by blast
next
  assume "backend env mdl t = chat_reply s \<and> json_loads env (unfence (py_strip s)) = None"
  then show "classifier_try env mdl t = Inl JSONDecodeError"
    using try_chat_reply [of env mdl t s] by simp
next
  assume "backend env mdl t = chat_reply s
        \<and> json_loads env (unfence (py_strip s)) = Some (JObj kvs)
        \<and> map_of kvs ''tier'' = None"
  then show "classifier_try env mdl t = Inl KeyError"
    using try_chat_reply [of env mdl t s] by (simp add: bind_err_def)
next
  assume "models reg = [] \<and> classifier_model cfg = []"
  then have "select_classifier_model cfg reg = None" using select_none by blast
  then show "classify_complexity env cfg reg messages
            = Inr (MEDIUM, JStr ''no classifier model available'')"
    by (simp add: classify_complexity_def)
qed

lemma select_medium_only:
  "select_classifier_model default_config reg_medium_only = Some ''medium''"
  by (simp add: select_classifier_model_def default_config_def reg_medium_only_def
        by_tier_def model_values_def medium_model_def)

lemma condense_simple:
  "condense_messages simple_received = Inr ''user: What is 2+2?''"
  by (simp add: condense_messages_def simple_received_def message_line_def bind_err_def)

theorem classify_complexity_recovers_witness:
  "text_parts_ok simple_received
   \<and> (\<exists>t r. classify_complexity env_fenced default_config reg_medium_only simple_received
              = Inr (t, r))
   \<and> select_classifier_model default_config reg_medium_only = Some ''medium''
   \<and> condense_messages simple_received = Inr ''user: What is 2+2?''
   \<and> backend env_down ''medium'' ''user: What is 2+2?'' = PostRaises
   \<and> classify_complexity env_down default_config reg_medium_only simple_received
       = Inr (MEDIUM, JStr ''classifier error, defaulting to medium'')
   \<and> backend env_prose ''medium'' ''user: What is 2+2?''
       = chat_reply ''I think this is hard.''
   \<and> json_loads env_prose (unfence (py_strip ''I think this is hard.'')) = None
   \<and> classify_complexity env_prose default_config reg_medium_only simple_received
       = Inr (MEDIUM, JStr ''classifier error, defaulting to medium'')
   \<and> models (registry start_state) = [] \<and> classifier_model default_config = []
   \<and> classify_complexity env_down default_config (registry start_state) null_text_received
       = Inr (MEDIUM, JStr ''no classifier model available'')"
proof -
  let ?c = "''user: What is 2+2?''"
  have ok: "text_parts_ok simple_received"
    by (simp add: text_parts_ok_def simple_received_def)
  have b1: "backend env_down ''medium'' ?c = PostRaises" by (simp add: env_down_def)
  have b2: "backend env_prose ''medium'' ?c = chat_reply ''I think this is hard.''"
    by (simp add: env_prose_def)
  have l2: "json_loads env_prose (unfence (py_strip ''I think this is hard.'')) = None"
    by (simp add: env_prose_def toy_loads_def unfence_def py_strip_def strip_with_def
          is_space_def)
  have e: "models (registry start_state) = [] \<and> classifier_model default_config = []"
    by (simp add: start_state_def default_config_def)
  from classify_complexity_recovers
         [where env = env_fenced and cfg = default_config and reg = reg_medium_only
            and messages = simple_received] ok
  have r0: "\<exists>t r. classify_complexity env_fenced default_config reg_medium_only simple_received
              = Inr (t, r)" by blast
  from classify_complexity_recovers
         [where env = env_down and mdl = "''medium''" and t = ?c] b1
  have t1: "classifier_try env_down ''medium'' ?c = Inl HTTPError" by blast
  from classify_complexity_recovers
         [where env = env_down and cfg = default_config and reg = reg_medium_only
            and messages = simple_received and mdl = "''medium''" and condensed = ?c
            and e = HTTPError]
       select_medium_only condense_simple t1
  have r1: "classify_complexity env_down default_config reg_medium_only simple_received
       = Inr (MEDIUM, JStr ''classifier error, defaulting to medium'')" by blast
  from classify_complexity_recovers
         [where env = env_prose and mdl = "''medium''" and t = ?c
            and s = "''I think this is hard.''"]
       b2 l2
  have t2: "classifier_try env_prose ''medium'' ?c = Inl JSONDecodeError" by blast
  from classify_complexity_recovers
         [where env = env_prose and cfg = default_config and reg = reg_medium_only
            and messages = simple_received and mdl = "''medium''" and condensed = ?c
            and e = JSONDecodeError]
       select_medium_only condense_simple t2
  have r2: "classify_complexity env_prose default_config reg_medium_only simple_received
       = Inr (MEDIUM, JStr ''classifier error, defaulting to medium'')" by blast
  from classify_complexity_recovers
         [where env = env_down and cfg = default_config and reg = "registry start_state"
            and messages = null_text_received] e
  have r3: "classify_complexity env_down default_config (registry start_state)
              null_text_received
       = Inr (MEDIUM, JStr ''no classifier model available'')" by blast
  from ok r0 select_medium_only condense_simple b1 b2 l2 e r1 r2 r3 show ?thesis by blast
qed

text \<open>
  Claim C3 as stated fails: for the message whose only part is
  \<^verbatim>\<open>{"type": "text", "text": null}\<close>, with a model in the registry and a backend that
  answers well, \<^verbatim>\<open>_condense_messages\<close> raises \<^verbatim>\<open>TypeError\<close> before the try block and
  the exception reaches the caller.
\<close>

theorem classify_complexity_null_text_counterexample:
  "select_classifier_model default_config reg_medium_only = Some ''medium''
   \<and> condense_messages null_text_received = Inl TypeError
   \<and> classify_complexity env_fenced default_config reg_medium_only null_text_received
       = Inl TypeError"
  by (simp add: classify_complexity_def select_medium_only condense_messages_def
        null_text_received_def message_line_def bind_err_def join_items_def)

section \<open>Claims about route\_request\<close>

lemma refresh_models_returns_global:
  assumes "refresh_models force now fetch loaded s = (Inr reg, s')"
  shows "reg = registry s'"
  using assms
  by (auto simp: refresh_models_def refresh_failed_def Let_def
           split: if_splits fetch_result.splits sum.splits)

lemma routing_metadata_full:
  assumes "routing_method = ''heuristic'' \<or> routing_method = ''classifier''"
  shows "has_full_metadata (routing_metadata routing_method h t model pc cr) h t model pc"
  using assms by (auto simp: has_full_metadata_def routing_metadata_def)

lemma resolve_tier_method:
  assumes "resolve_tier env cfg reg messages h = Inr (t, routing_method, cr)"
  shows "routing_method = ''heuristic'' \<or> routing_method = ''classifier''"
  using assms by (auto simp: resolve_tier_def split: if_splits sum.splits)

lemma route_with_metadata:
  assumes "route_with mt env cfg reg messages tools requested = Inr (model, meta)"
  shows "(\<exists>rm. requested = Some rm \<and> map_of (models reg) rm = Some model
            \<and> meta = [(''routing'', MStr ''explicit''), (''requested_model'', MStr rm)])
       \<or> (\<exists>t routing_method cr.
             resolve_tier env cfg reg messages (score_request mt cfg messages tools)
               = Inr (t, routing_method, cr)
             \<and> get_model_for_tier reg t (is_coding_request mt messages) = Some model
             \<and> map_of meta ''routing'' = Some (MStr routing_method)
             \<and> has_full_metadata meta (score_request mt cfg messages tools) t model
                   (is_coding_request mt messages))"
proof (cases "case requested of None \<Rightarrow> None
              | Some rm \<Rightarrow> if rm \<noteq> [] then map_option (Pair rm) (map_of (models reg) rm) else None")
  case (Some p)
  obtain rm m where p: "p = (rm, m)" by (cases p)
  from Some p have "requested = Some rm \<and> map_of (models reg) rm = Some m"
    by (auto split: option.splits if_splits)
  moreover from Some p assms have "model = m"
    and "meta = [(''routing'', MStr ''explicit''), (''requested_model'', MStr rm)]"
    by (simp_all add: route_with_def)
  ultimately show ?thesis by blast
next
  case None
  let ?h = "score_request mt cfg messages tools"
  let ?pc = "is_coding_request mt messages"
  from None assms obtain t routing_method cr where
    rt: "resolve_tier env cfg reg messages ?h = Inr (t, routing_method, cr)"
    and gm: "get_model_for_tier reg t ?pc = Some model"
    and meta: "meta = routing_metadata routing_method ?h t model ?pc cr"
    by (auto simp: route_with_def Let_def split: sum.splits option.splits prod.splits)
  have full: "has_full_metadata meta ?h t model ?pc"
    unfolding meta using resolve_tier_method [OF rt] by (rule routing_metadata_full)
  have "map_of meta ''routing'' = Some (MStr routing_method)"
    by (simp add: meta routing_metadata_def)
  with rt gm full show ?thesis by blast
qed

text \<open>
  Claim C9, amended. When \<^verbatim>\<open>route_request\<close> returns a model and metadata, either the
  route is explicit and the metadata holds exactly the routing method and the requested
  model, or the route is by heuristic or classifier and the metadata holds the routing
  method, the heuristic score, the reasons, the name of the resolved tier, the id of the
  selected model and the coder-preference flag.
\<close>

theorem route_request_metadata:
  assumes "route_request mt env now fetch loaded s messages tools requested
             = (Inr (model, meta), s')"
  shows "(\<exists>rm. requested = Some rm \<and> map_of (models (registry s')) rm = Some model
            \<and> meta = [(''routing'', MStr ''explicit''), (''requested_model'', MStr rm)])
       \<or> (\<exists>t routing_method cr.
             resolve_tier env (config s') (registry s') messages
                 (score_request mt (config s') messages tools)
               = Inr (t, routing_method, cr)
             \<and> get_model_for_tier (registry s') t (is_coding_request mt messages) = Some model
             \<and> map_of meta ''routing'' = Some (MStr routing_method)
             \<and> has_full_metadata meta (score_request mt (config s') messages tools) t model
                   (is_coding_request mt messages))"
proof -
  from assms obtain reg where
    rf: "refresh_models False now fetch loaded s = (Inr reg, s')"
    and rw: "route_with mt env (config s') reg messages tools requested = Inr (model, meta)"
    by (auto simp: route_request_def split: prod.splits sum.splits)
  have "reg = registry s'" using rf by (rule refresh_models_returns_global)
  with route_with_metadata [OF rw] show ?thesis by simp
qed


lemma refresh_cached:
  "refresh_models False 0 fetch loaded serving_state = (Inr reg_medium_only, serving_state)"
  by (simp add: refresh_models_def serving_state_def reg_medium_only_def default_config_def)

lemma config_serving: "config serving_state = default_config"
  by (simp add: serving_state_def)

lemma not_coding_simple:
  "is_coding_request simple_matches simple_messages = False"
  "is_coding_request no_matches simple_messages = False"
  by (simp_all add: is_coding_request_def last3_def simple_messages_def looks_like_code_def
        simple_matches_def no_matches_def)

lemma get_medium_only:
  "get_model_for_tier reg_medium_only t False = Some medium_model"
  by (cases t)
     (simp_all add: reg_medium_only_def medium_model_def model_values_def by_tier_def
        get_model_for_tier_def candidates_def all_tiers_def)

lemma tools_score:
  "score_request no_matches default_config simple_messages four_tools
     = \<lparr>score = 1 / 5, reasons = [VeryShort 3, ManyTools 4], confident = False\<rparr>"
  using round3_fix [of 200]
  by (simp add: score_defs no_matches_def four_tools_def default_config_def)

lemma classify_fenced:
  "classify_complexity env_fenced default_config reg_medium_only
       (map raw_message_of simple_messages)
     = Inr (LARGE, JStr ''hard'')"
  by (simp add: classify_complexity_def select_medium_only classifier_try_def env_fenced_def
        simple_messages_def raw_message_of_def condense_messages_def message_line_def
        chat_reply_def bind_err_def unfence_def py_strip_def strip_with_def is_space_def
        removeprefix_def toy_loads_def tier_of_int_def)

lemma small_tier_zero: "score_to_tier default_config 0 = SMALL"
  by (simp add: score_to_tier_def default_config_def)

lemma route_explicit:
  "route_request simple_matches env 0 fetch loaded serving_state simple_messages None
     (Some ''medium'') = (Inr (medium_model, explicit_meta), serving_state)"
  by (simp add: route_request_def refresh_cached route_with_def reg_medium_only_def
        explicit_meta_def)

lemma route_heuristic:
  "route_request simple_matches env 0 fetch loaded serving_state simple_messages None None
     = (Inr (medium_model, heuristic_meta), serving_state)"
  by (simp add: route_request_def refresh_cached route_with_def config_serving simple_score
        resolve_tier_def small_tier_zero not_coding_simple
        get_medium_only routing_metadata_def heuristic_meta_def medium_model_def)

lemma route_classifier:
  "route_request no_matches env_fenced 0 fetch loaded serving_state simple_messages four_tools
     None = (Inr (medium_model, classifier_meta), serving_state)"
  by (simp add: route_request_def refresh_cached route_with_def config_serving tools_score
        resolve_tier_def classify_fenced not_coding_simple
        get_medium_only routing_metadata_def classifier_meta_def medium_model_def)

lemma resolve_heuristic_simple:
  "resolve_tier env default_config reg_medium_only simple_messages
     (score_request simple_matches default_config simple_messages None)
     = Inr (SMALL, ''heuristic'', JStr [])"
  by (simp add: simple_score resolve_tier_def small_tier_zero)

lemma resolve_classifier_fenced:
  "resolve_tier env_fenced default_config reg_medium_only simple_messages
     (score_request no_matches default_config simple_messages four_tools)
     = Inr (LARGE, ''classifier'', JStr ''hard'')"
  by (simp add: tools_score resolve_tier_def classify_fenced)

lemma registry_serving: "registry serving_state = reg_medium_only"
  by (simp add: serving_state_def)

theorem route_request_metadata_witness:
  "route_request simple_matches env_down 0 (FetchRaises HTTPError) default_config serving_state
     simple_messages None None = (Inr (medium_model, heuristic_meta), serving_state)
   \<and> has_full_metadata heuristic_meta
        (score_request simple_matches default_config simple_messages None)
        SMALL medium_model False
   \<and> route_request no_matches env_fenced 0 (FetchRaises HTTPError) default_config serving_state
        simple_messages four_tools None = (Inr (medium_model, classifier_meta), serving_state)
   \<and> has_full_metadata classifier_meta
        (score_request no_matches default_config simple_messages four_tools)
        LARGE medium_model False"
proof -
  note h = route_heuristic [of env_down "FetchRaises HTTPError" default_config]
  note c = route_classifier [of "FetchRaises HTTPError" default_config]
  from route_request_metadata [OF h]
  have r1: "has_full_metadata heuristic_meta
        (score_request simple_matches default_config simple_messages None)
        SMALL medium_model False"
    by (auto simp: config_serving registry_serving resolve_heuristic_simple not_coding_simple)
  from route_request_metadata [OF c]
  have r2: "has_full_metadata classifier_meta
        (score_request no_matches default_config simple_messages four_tools)
        LARGE medium_model False"
    by (auto simp: config_serving registry_serving resolve_classifier_fenced not_coding_simple)
  from h c r1 r2 show ?thesis by blast
qed

text \<open>
  Claim C9 as stated fails on the explicit route: the metadata then holds the routing
  method and the requested model only, and none of the heuristic score, the reasons, the
  tier, the selected model id and the coder-preference flag.
\<close>

theorem route_request_explicit_counterexample:
  "route_request simple_matches env_down 0 (FetchRaises HTTPError) default_config serving_state
     simple_messages None (Some ''medium'') = (Inr (medium_model, explicit_meta), serving_state)
   \<and> map_of explicit_meta ''routing'' = Some (MStr ''explicit'')
   \<and> map_of explicit_meta ''heuristic_score'' = None
   \<and> map_of explicit_meta ''heuristic_reasons'' = None
   \<and> map_of explicit_meta ''tier'' = None
   \<and> map_of explicit_meta ''selected_model'' = None
   \<and> map_of explicit_meta ''prefer_coder'' = None"
  using route_explicit [of env_down "FetchRaises HTTPError" default_config]
  by (simp add: explicit_meta_def)


section \<open>Claims about the effect of the registry methods\<close>

lemma by_tier_op_run: "run_state (by_tier_op t) reg = (by_tier reg t, reg)"
  by (simp add: by_tier_op_def by_tier_def model_values_def)

lemma search_higher_op_run:
  "run_state (search_higher_op t fts cands) reg = (search_higher reg t fts cands, reg)"
  by (induction fts arbitrary: cands) (simp_all add: by_tier_op_run Let_def)

lemma search_lower_op_run:
  "run_state (search_lower_op t fts cands) reg = (search_lower reg t fts cands, reg)"
  by (induction fts arbitrary: cands) (simp_all add: by_tier_op_run Let_def)

lemma search_general_op_run:
  "run_state (search_general_op t fts) reg = (search_general reg t fts, reg)"
  by (induction fts) (simp_all add: by_tier_op_run split: list.splits)

lemma get_model_for_tier_op_run:
  "run_state (get_model_for_tier_op t pc) reg = (get_model_for_tier reg t pc, reg)"
  by (simp add: get_model_for_tier_op_def get_model_for_tier_def candidates_def Let_def
        by_tier_op_run search_higher_op_run search_lower_op_run search_general_op_run
      split: list.splits option.splits)

text \<open>
  Claim C10. \<^verbatim>\<open>by_tier\<close> and \<^verbatim>\<open>get_model_for_tier\<close> leave the registry object as they
  found it, for every registry, tier and coder preference: the object after the call
  equals the object before, in particular its \<^verbatim>\<open>models\<close> mapping with all keys and all
  fields of all models. Their results are those of the functions used in the other
  claims.
\<close>

theorem registry_methods_read_only:
  "snd (run_state (by_tier_op t) reg) = reg
   \<and> snd (run_state (get_model_for_tier_op t prefer_coder) reg) = reg
   \<and> models (snd (run_state (by_tier_op t) reg)) = models reg
   \<and> models (snd (run_state (get_model_for_tier_op t prefer_coder) reg)) = models reg
   \<and> fst (run_state (by_tier_op t) reg) = by_tier reg t
   \<and> fst (run_state (get_model_for_tier_op t prefer_coder) reg)
       = get_model_for_tier reg t prefer_coder"
  by (simp add: by_tier_op_run get_model_for_tier_op_run)

theorem registry_methods_read_only_witness:
  "snd (run_state (by_tier_op LARGE) reg_mixed) = reg_mixed
   \<and> fst (run_state (by_tier_op LARGE) reg_mixed) = [large_general]
   \<and> snd (run_state (get_model_for_tier_op MEDIUM False) reg_mixed) = reg_mixed
   \<and> fst (run_state (get_model_for_tier_op MEDIUM False) reg_mixed) = Some small_general"
proof -
  have b: "by_tier reg_mixed LARGE = [large_general]"
    by (simp add: reg_mixed_def small_general_def medium_coder_def large_general_def
          model_values_def by_tier_def)
  have g: "get_model_for_tier reg_mixed MEDIUM False = Some small_general"
    by (simp add: reg_mixed_def small_general_def medium_coder_def large_general_def
          model_values_def by_tier_def get_model_for_tier_def candidates_def all_tiers_def)
  from registry_methods_read_only [of LARGE reg_mixed False]
       registry_methods_read_only [of MEDIUM reg_mixed False] b g
  show ?thesis by simp
qed


end
